theory Spec2Isabelle
  imports Complex_Main "HOL-Library.AList"
begin

section \<open>Go values, errors and formatting\<close>

text \<open>
  The MCP manager of vimcoplit (package \<open>internal/core/mcp\<close>) is embedded function by
  function. Go maps are association lists read with \<open>map_of\<close>, written with
  \<open>AList.update\<close> and \<open>AList.delete\<close>; the order of the list is the order in
  which a \<open>range\<close> loop happens to visit the entries. An \<open>error\<close> result is
  \<open>go_error option\<close> (\<open>None\<close> is \<open>nil\<close>), a pair \<open>(value, error)\<close> is a sum with the
  error on the left. Calls into the standard library and the outside world (JSON codec,
  file system, HTTP, clock, UUIDs) are parameters of the functions that make them.
  The registry maps of the manager hold pointers; an entry is modelled by the value it
  points to, so a state in which one object is stored under two keys, or a nil pointer
  is stored, is outside the model. Locks are not modelled: every function is one
  atomic step.
\<close>

type_synonym time = int

text \<open>
  Error values. \<open>DeadlineExceeded\<close> is the sentinel \<open>context.DeadlineExceeded\<close>, which
  the executors compare with \<open>==\<close>; \<open>ErrNotExist\<close> is an error for which
  \<open>os.IsNotExist\<close> holds; \<open>ErrorString\<close> is any other error value with its message
  (\<open>errors.New\<close>, \<open>fmt.Errorf\<close>, wrapped errors of the libraries).
\<close>

datatype go_error = DeadlineExceeded | ErrNotExist string | ErrorString string

fun err_Error :: "go_error \<Rightarrow> string" where
  "err_Error DeadlineExceeded = ''context deadline exceeded''"
| "err_Error (ErrNotExist path) = ''open '' @ path @ '': no such file or directory''"
| "err_Error (ErrorString s) = s"


text \<open>A call either returns an error value or panics.\<close>

datatype failure = Returned go_error | Panicked string

text \<open>
  A value of type \<open>interface{}\<close>: its dynamic type and its payload. \<open>GSlice\<close> is
  \<open>[]interface{}\<close>, \<open>GMap\<close> is \<open>map[string]interface{}\<close>, \<open>GOther T\<close> is a value of
  any other dynamic type, named as \<open>%T\<close> prints it.
\<close>

datatype numkind =
  KInt | KInt8 | KInt16 | KInt32 | KInt64
| KUint | KUint8 | KUint16 | KUint32 | KUint64
| KFloat32 | KFloat64

datatype gvalue =
  GNil
| GString string
| GBool bool
| GNum numkind real
| GSlice "gvalue list"
| GMap "(string \<times> gvalue) list"
| GOther string

type_synonym params = "(string \<times> gvalue) list"

fun numkind_name :: "numkind \<Rightarrow> string" where
  "numkind_name KInt = ''int''"
| "numkind_name KInt8 = ''int8''"
| "numkind_name KInt16 = ''int16''"
| "numkind_name KInt32 = ''int32''"
| "numkind_name KInt64 = ''int64''"
| "numkind_name KUint = ''uint''"
| "numkind_name KUint8 = ''uint8''"
| "numkind_name KUint16 = ''uint16''"
| "numkind_name KUint32 = ''uint32''"
| "numkind_name KUint64 = ''uint64''"
| "numkind_name KFloat32 = ''float32''"
| "numkind_name KFloat64 = ''float64''"

text \<open>The verb \<open>%T\<close> of package fmt.\<close>

fun fmt_T :: "gvalue \<Rightarrow> string" where
  "fmt_T GNil = ''<nil>''"
| "fmt_T (GString _) = ''string''"
| "fmt_T (GBool _) = ''bool''"
| "fmt_T (GNum k _) = numkind_name k"
| "fmt_T (GSlice _) = ''[]interface {}''"
| "fmt_T (GMap _) = ''map[string]interface {}''"
| "fmt_T (GOther T) = T"

text \<open>The verb \<open>%d\<close> of package fmt.\<close>

definition digit_char :: "nat \<Rightarrow> char" where
  "digit_char n = ''0123456789'' ! n"

function fmt_nat :: "nat \<Rightarrow> string" where
  "fmt_nat n = (if n < 10 then [digit_char n] else fmt_nat (n div 10) @ [digit_char (n mod 10)])"
  by pat_completeness auto
termination
  by (relation "measure id") auto

declare fmt_nat.simps [simp del]

definition fmt_d :: "int \<Rightarrow> string" where
  "fmt_d i = (if i < 0 then CHR ''-'' # fmt_nat (nat (- i)) else fmt_nat (nat i))"

section \<open>Catalog entities\<close>

record ToolParameter =
  param_Name :: string
  param_Type :: string
  param_Description :: string
  param_Required :: bool
  param_Default :: gvalue

record Tool =
  tool_ID :: string
  tool_Name :: string
  tool_Description :: string
  tool_Version :: string
  tool_Author :: string
  tool_Parameters :: "ToolParameter list"
  tool_ServerID :: string
  tool_CreatedAt :: time
  tool_UpdatedAt :: time
  tool_Metadata :: "(string \<times> string) list"

type_synonym ServerType = string
type_synonym ServerStatus = string

definition ServerTypeLocal :: ServerType where "ServerTypeLocal = ''local''"
definition ServerTypeRemote :: ServerType where "ServerTypeRemote = ''remote''"

definition ServerStatusRunning :: ServerStatus where "ServerStatusRunning = ''running''"
definition ServerStatusStopped :: ServerStatus where "ServerStatusStopped = ''stopped''"
definition ServerStatusError :: ServerStatus where "ServerStatusError = ''error''"

record Server =
  server_ID :: string
  server_Name :: string
  server_Description :: string
  server_Version :: string
  server_URL :: string
  server_Type :: ServerType
  server_Status :: ServerStatus
  server_Tools :: "Tool list"
  server_CreatedAt :: time
  server_UpdatedAt :: time
  server_Metadata :: "(string \<times> string) list"

text \<open>Reading a \<open>map[string]string\<close>: a missing key reads as the empty string.\<close>

definition md_get :: "(string \<times> string) list \<Rightarrow> string \<Rightarrow> string" where
  "md_get md k = (case map_of md k of None \<Rightarrow> [] | Some v \<Rightarrow> v)"

type_synonym ToolExecutionStatus = string

definition ToolExecutionStatusSuccess :: ToolExecutionStatus where
  "ToolExecutionStatusSuccess = ''success''"
definition ToolExecutionStatusError :: ToolExecutionStatus where
  "ToolExecutionStatusError = ''error''"
definition ToolExecutionStatusTimeout :: ToolExecutionStatus where
  "ToolExecutionStatusTimeout = ''timeout''"

record ToolExecutionResult =
  exec_Status :: ToolExecutionStatus
  exec_Result :: gvalue
  exec_Error :: string
  exec_StartTime :: time
  exec_EndTime :: time

record ToolResult =
  res_ToolID :: string
  res_Status :: string
  res_Result :: gvalue
  res_Error :: string
  res_StartTime :: time
  res_EndTime :: time

section \<open>Parameter validation\<close>

fun validateParameterType :: "string \<Rightarrow> gvalue \<Rightarrow> go_error option" where
  "validateParameterType paramType v =
     (if paramType = ''string'' then
        (case v of GString _ \<Rightarrow> None
         | _ \<Rightarrow> Some (ErrorString (''expected string, got '' @ fmt_T v)))
      else if paramType = ''number'' then
        (case v of
           GNum k _ \<Rightarrow>
             (if k \<in> {KInt, KInt8, KInt16, KInt32, KInt64, KFloat32, KFloat64} then None
              else Some (ErrorString (''expected number, got '' @ fmt_T v)))
         | _ \<Rightarrow> Some (ErrorString (''expected number, got '' @ fmt_T v)))
      else if paramType = ''boolean'' then
        (case v of GBool _ \<Rightarrow> None
         | _ \<Rightarrow> Some (ErrorString (''expected boolean, got '' @ fmt_T v)))
      else if paramType = ''array'' then
        (case v of GSlice _ \<Rightarrow> None
         | _ \<Rightarrow> Some (ErrorString (''expected array, got '' @ fmt_T v)))
      else if paramType = ''object'' then
        (case v of GMap _ \<Rightarrow> None
         | _ \<Rightarrow> Some (ErrorString (''expected object, got '' @ fmt_T v)))
      else Some (ErrorString (''unsupported parameter type: '' @ paramType)))"

text \<open>The first loop of \<open>ValidateParameters\<close>: every required parameter is a key.\<close>

fun check_required :: "ToolParameter list \<Rightarrow> params \<Rightarrow> go_error option" where
  "check_required [] ps = None"
| "check_required (param # rest) ps =
     (if param_Required param \<and> map_of ps (param_Name param) = None
      then Some (ErrorString (''missing required parameter: '' @ param_Name param))
      else check_required rest ps)"

text \<open>The inner loop: the first declared parameter of that name, if any.\<close>

fun find_paramDef :: "ToolParameter list \<Rightarrow> string \<Rightarrow> ToolParameter option" where
  "find_paramDef [] name = None"
| "find_paramDef (p # rest) name =
     (if param_Name p = name then Some p else find_paramDef rest name)"

text \<open>The second loop, over the entries of the call's parameter map.\<close>

fun check_types :: "ToolParameter list \<Rightarrow> params \<Rightarrow> go_error option" where
  "check_types decls [] = None"
| "check_types decls ((name, v) # rest) =
     (case find_paramDef decls name of
        None \<Rightarrow> Some (ErrorString (''unknown parameter: '' @ name))
      | Some paramDef \<Rightarrow>
          (case validateParameterType (param_Type paramDef) v of
             Some err \<Rightarrow>
               Some (ErrorString (''invalid type for parameter '' @ name @ '': '' @ err_Error err))
           | None \<Rightarrow> check_types decls rest))"

definition ValidateParameters :: "Tool \<Rightarrow> params \<Rightarrow> go_error option" where
  "ValidateParameters t ps =
     (case check_required (tool_Parameters t) ps of
        Some err \<Rightarrow> Some err
      | None \<Rightarrow> check_types (tool_Parameters t) ps)"

section \<open>The standard library and the outside world\<close>

text \<open>
  A \<open>context.Context\<close>. The code under study only passes it on.
\<close>

datatype Context = Background | WithDeadline time Context

record http_request =
  req_Method :: string
  req_URL :: string
  req_Header :: "(string \<times> string) list"
  req_Body :: string
  req_Context :: Context

record http_response =
  resp_StatusCode :: int
  resp_Body :: string

text \<open>
  The snapshot written by \<open>saveConfig\<close> and read by \<open>loadConfig\<close>: the anonymous
  struct with fields \<open>servers\<close>, \<open>tools\<close>, \<open>auto_approve\<close>, \<open>timeout\<close>.
\<close>

record registry_config =
  cfg_Servers :: "(string \<times> Server) list"
  cfg_Tools :: "(string \<times> Tool) list"
  cfg_AutoApprove :: bool
  cfg_Timeout :: time

text \<open>
  The declarative configuration structs of config.go. The Go fields are \<open>int\<close> and
  \<open>int64\<close>; the code only compares them with constants, so they are integers here.
\<close>

record ToolConfig =
  tc_ID :: string
  tc_Name :: string
  tc_Description :: string
  tc_Version :: string
  tc_Author :: string
  tc_Parameters :: "ToolParameter list"
  tc_Metadata :: "(string \<times> string) list"
  tc_Timeout :: int
  tc_RetryCount :: int
  tc_RetryDelay :: int
  tc_Concurrency :: int
  tc_RateLimit :: int
  tc_RequireAuth :: bool
  tc_AllowRoles :: "string list"
  tc_AllowIPs :: "string list"
  tc_LogLevel :: string
  tc_LogFile :: string
  tc_LogFormat :: string
  tc_LogMaxSize :: int
  tc_LogMaxFiles :: int

record ServerConfig =
  sc_ID :: string
  sc_Name :: string
  sc_Description :: string
  sc_Version :: string
  sc_Type :: ServerType
  sc_URL :: string
  sc_Metadata :: "(string \<times> string) list"
  sc_Tools :: "ToolConfig list"
  sc_Port :: int
  sc_Host :: string
  sc_SSLEnabled :: bool
  sc_SSLCertFile :: string
  sc_SSLKeyFile :: string
  sc_AllowedOrigins :: "string list"
  sc_AllowedMethods :: "string list"
  sc_AllowedHeaders :: "string list"
  sc_MaxRequestSize :: int
  sc_ReadTimeout :: int
  sc_WriteTimeout :: int
  sc_IdleTimeout :: int
  sc_ShutdownTimeout :: int

text \<open>
  The functions of Go's standard library that the package calls on data: the JSON codec
  at each type it is used at, \<open>filepath.Dir\<close>, the failure of
  \<open>http.NewRequestWithContext\<close> on a method and URL, and the verb \<open>%v\<close>.
\<close>

record 'b golib =
  json_MarshalIndent :: "registry_config \<Rightarrow> go_error + 'b"
  json_Unmarshal_registry :: "'b \<Rightarrow> go_error + registry_config"
  json_Unmarshal_ToolConfig :: "'b \<Rightarrow> go_error + ToolConfig"
  json_Unmarshal_ServerConfig :: "'b \<Rightarrow> go_error + ServerConfig"
  json_Marshal_params :: "params \<Rightarrow> go_error + string"
  json_Decode :: "string \<Rightarrow> go_error + gvalue"
  filepath_Dir :: "string \<Rightarrow> string"
  http_NewRequest_err :: "string \<Rightarrow> string \<Rightarrow> go_error option"
  fmt_v :: "gvalue \<Rightarrow> string"

text \<open>
  The network as seen through an \<open>http.Client\<close> with a given timeout: \<open>Do\<close> on a
  request and \<open>Get\<close> on a URL (the status code of the response is all that is read).
\<close>

record network =
  client_Do :: "time \<Rightarrow> http_request \<Rightarrow> go_error + http_response"
  client_Get :: "time \<Rightarrow> string \<Rightarrow> go_error + int"

text \<open>
  The file system: the contents of the regular files, and which calls fail.
  A failed write leaves the contents as they were.
\<close>

record 'b filesystem =
  files :: "string \<rightharpoonup> 'b"
  MkdirAll_err :: "string \<Rightarrow> go_error option"
  WriteFile_err :: "string \<Rightarrow> go_error option"
  ReadFile_err :: "string \<Rightarrow> go_error option"

definition os_MkdirAll :: "'b filesystem \<Rightarrow> string \<Rightarrow> go_error option" where
  "os_MkdirAll fs dir = MkdirAll_err fs dir"

definition os_WriteFile ::
  "'b filesystem \<Rightarrow> string \<Rightarrow> 'b \<Rightarrow> go_error option \<times> 'b filesystem" where
  "os_WriteFile fs path data =
     (case WriteFile_err fs path of
        Some err \<Rightarrow> (Some err, fs)
      | None \<Rightarrow> (None, fs\<lparr>files := (files fs)(path \<mapsto> data)\<rparr>))"

definition os_ReadFile :: "'b filesystem \<Rightarrow> string \<Rightarrow> go_error + 'b" where
  "os_ReadFile fs path =
     (case ReadFile_err fs path of
        Some err \<Rightarrow> Inl err
      | None \<Rightarrow> (case files fs path of None \<Rightarrow> Inl (ErrNotExist path) | Some data \<Rightarrow> Inr data))"

text \<open>What a call did to the outside world, in order.\<close>

datatype event =
  HandlerCall string Context params
| ClientDo time http_request
| ClientGet time string
| ProcessStart string string string

section \<open>Executors\<close>

type_synonym ToolHandler = "Context \<Rightarrow> params \<Rightarrow> gvalue \<times> go_error option"

definition Header_Set :: "http_request \<Rightarrow> string \<Rightarrow> string \<Rightarrow> http_request" where
  "Header_Set req k v = req\<lparr>req_Header := AList.update k v (req_Header req)\<rparr>"

text \<open>
  \<open>startTime\<close> and \<open>endTime\<close> are the two readings of \<open>time.Now()\<close>; \<open>timeout\<close> is
  the \<open>Timeout\<close> of the executor's client.
\<close>

definition HTTPExecutor_Execute ::
  "'b golib \<Rightarrow> network \<Rightarrow> time \<Rightarrow> time \<Rightarrow> time \<Rightarrow> Context \<Rightarrow> Tool \<Rightarrow> params
     \<Rightarrow> (failure + ToolExecutionResult) \<times> event list" where
  "HTTPExecutor_Execute L N startTime endTime timeout ctx tool ps =
     (case ValidateParameters tool ps of
        Some err \<Rightarrow>
          (Inl (Returned (ErrorString (''parameter validation failed: '' @ err_Error err))), [])
      | None \<Rightarrow>
     (case json_Marshal_params L ps of
        Inl err \<Rightarrow>
          (Inl (Returned (ErrorString (''failed to marshal parameters: '' @ err_Error err))), [])
      | Inr reqBody \<Rightarrow>
     (case http_NewRequest_err L ''POST'' (md_get (tool_Metadata tool) ''endpoint'') of
        Some err \<Rightarrow>
          (Inl (Returned (ErrorString (''failed to create request: '' @ err_Error err))), [])
      | None \<Rightarrow>
     (let req0 = \<lparr>req_Method = ''POST'', req_URL = md_get (tool_Metadata tool) ''endpoint'',
                  req_Header = [], req_Body = reqBody, req_Context = ctx\<rparr>;
          req1 = Header_Set req0 ''Content-Type'' ''application/json'';
          auth = md_get (tool_Metadata tool) ''auth'';
          req = (if auth \<noteq> [] then Header_Set req1 ''Authorization'' auth else req1);
          result = \<lparr>exec_Status = [], exec_Result = GNil, exec_Error = [],
                    exec_StartTime = startTime, exec_EndTime = endTime\<rparr>
      in
       ((case client_Do N timeout req of
          Inl err \<Rightarrow>
            (if err = DeadlineExceeded
             then Inr (result\<lparr>exec_Status := ToolExecutionStatusTimeout,
                              exec_Error := ''execution timed out''\<rparr>)
             else Inr (result\<lparr>exec_Status := ToolExecutionStatusError,
                              exec_Error := ''request failed: '' @ err_Error err\<rparr>))
        | Inr resp \<Rightarrow>
            (case json_Decode L (resp_Body resp) of
               Inl err \<Rightarrow>
                 Inr (result\<lparr>exec_Status := ToolExecutionStatusError,
                             exec_Error := ''failed to decode response: '' @ err_Error err\<rparr>)
             | Inr responseBody \<Rightarrow>
                 (if resp_StatusCode resp \<ge> 400 then
                    (case responseBody of
                       GMap body \<Rightarrow>
                         (case map_of body ''error'' of
                            Some errMsg \<Rightarrow>
                              Inr (result\<lparr>exec_Status := ToolExecutionStatusError,
                                          exec_Error := fmt_v L errMsg\<rparr>)
                          | None \<Rightarrow>
                              Inr (result\<lparr>exec_Status := ToolExecutionStatusError,
                                          exec_Error := ''server returned status ''
                                            @ fmt_d (resp_StatusCode resp)\<rparr>))
                     | _ \<Rightarrow> Inl (Panicked (''interface conversion: interface {} is ''
                                  @ fmt_T responseBody @ '', not map[string]interface {}'')))
                  else Inr (result\<lparr>exec_Status := ToolExecutionStatusSuccess,
                                   exec_Result := responseBody\<rparr>)))),
        [ClientDo timeout req])))))"

definition LocalExecutor_Execute ::
  "time \<Rightarrow> time \<Rightarrow> (string \<times> ToolHandler) list \<Rightarrow> Context \<Rightarrow> Tool \<Rightarrow> params
     \<Rightarrow> (failure + ToolExecutionResult) \<times> event list" where
  "LocalExecutor_Execute startTime endTime handlers ctx tool ps =
     (case ValidateParameters tool ps of
        Some err \<Rightarrow>
          (Inl (Returned (ErrorString (''parameter validation failed: '' @ err_Error err))), [])
      | None \<Rightarrow>
     (case map_of handlers (tool_ID tool) of
        None \<Rightarrow>
          (Inl (Returned (ErrorString (''no handler registered for tool '' @ tool_ID tool))), [])
      | Some handler \<Rightarrow>
     (let (result, err) = handler ctx ps;
          execResult = \<lparr>exec_Status = [], exec_Result = GNil, exec_Error = [],
                        exec_StartTime = startTime, exec_EndTime = endTime\<rparr>
      in
       ((case err of
          Some e \<Rightarrow>
            (if e = DeadlineExceeded
             then Inr (execResult\<lparr>exec_Status := ToolExecutionStatusTimeout,
                                  exec_Error := ''execution timed out''\<rparr>)
             else Inr (execResult\<lparr>exec_Status := ToolExecutionStatusError,
                                  exec_Error := err_Error e\<rparr>))
        | None \<Rightarrow>
            Inr (execResult\<lparr>exec_Status := ToolExecutionStatusSuccess,
                            exec_Result := result\<rparr>)),
        [HandlerCall (tool_ID tool) ctx ps]))))"

text \<open>
  The two implementations of the interface \<open>ToolExecutor\<close>: a \<open>LocalExecutor\<close> with
  its handler map, an \<open>HTTPExecutor\<close> with the timeout of its client.
\<close>

datatype ToolExecutor =
  LocalExecutor "(string \<times> ToolHandler) list"
| HTTPExecutor time

definition NewLocalExecutor :: ToolExecutor where
  "NewLocalExecutor = LocalExecutor []"

definition NewHTTPExecutor :: "time \<Rightarrow> ToolExecutor" where
  "NewHTTPExecutor timeout = HTTPExecutor timeout"

fun Execute ::
  "'b golib \<Rightarrow> network \<Rightarrow> time \<Rightarrow> time \<Rightarrow> ToolExecutor \<Rightarrow> Context \<Rightarrow> Tool \<Rightarrow> params
     \<Rightarrow> (failure + ToolExecutionResult) \<times> event list" where
  "Execute L N startTime endTime (LocalExecutor handlers) ctx tool ps =
     LocalExecutor_Execute startTime endTime handlers ctx tool ps"
| "Execute L N startTime endTime (HTTPExecutor timeout) ctx tool ps =
     HTTPExecutor_Execute L N startTime endTime timeout ctx tool ps"

fun RegisterHandler :: "(string \<times> ToolHandler) list \<Rightarrow> string \<Rightarrow> ToolHandler
     \<Rightarrow> (string \<times> ToolHandler) list" where
  "RegisterHandler handlers toolID handler = AList.update toolID handler handlers"

section \<open>Declarative configuration (config.go)\<close>

fun validate_parameters :: "nat \<Rightarrow> ToolParameter list \<Rightarrow> go_error option" where
  "validate_parameters i [] = None"
| "validate_parameters i (param # rest) =
     (if param_Name param = [] then
        Some (ErrorString (''parameter name is required at index '' @ fmt_d (int i)))
      else if param_Type param = [] then
        Some (ErrorString (''parameter type is required for parameter '' @ param_Name param))
      else validate_parameters (Suc i) rest)"

definition validateToolConfig :: "ToolConfig \<Rightarrow> go_error option" where
  "validateToolConfig config =
     (if tc_ID config = [] then Some (ErrorString ''tool ID is required'')
      else if tc_Name config = [] then Some (ErrorString ''tool name is required'')
      else if tc_Version config = [] then Some (ErrorString ''tool version is required'')
      else (case validate_parameters 0 (tc_Parameters config) of
        Some err \<Rightarrow> Some err
      | None \<Rightarrow>
         (if tc_Timeout config < 0 then Some (ErrorString ''timeout must be non-negative'')
          else if tc_RetryCount config < 0 then
            Some (ErrorString ''retry count must be non-negative'')
          else if tc_RetryDelay config < 0 then
            Some (ErrorString ''retry delay must be non-negative'')
          else if tc_Concurrency config < 0 then
            Some (ErrorString ''concurrency must be non-negative'')
          else if tc_RateLimit config < 0 then
            Some (ErrorString ''rate limit must be non-negative'')
          else if tc_LogMaxSize config < 0 then
            Some (ErrorString ''log max size must be non-negative'')
          else if tc_LogMaxFiles config < 0 then
            Some (ErrorString ''log max files must be non-negative'')
          else None)))"

fun validate_tools :: "nat \<Rightarrow> ToolConfig list \<Rightarrow> go_error option" where
  "validate_tools i [] = None"
| "validate_tools i (tool # rest) =
     (case validateToolConfig tool of
        Some err \<Rightarrow>
          Some (ErrorString (''invalid tool config at index '' @ fmt_d (int i) @ '': ''
            @ err_Error err))
      | None \<Rightarrow> validate_tools (Suc i) rest)"

definition validateServerConfig :: "ServerConfig \<Rightarrow> go_error option" where
  "validateServerConfig config =
     (if sc_ID config = [] then Some (ErrorString ''server ID is required'')
      else if sc_Name config = [] then Some (ErrorString ''server name is required'')
      else if sc_Version config = [] then Some (ErrorString ''server version is required'')
      else if sc_Type config = [] then Some (ErrorString ''server type is required'')
      else (case validate_tools 0 (sc_Tools config) of
        Some err \<Rightarrow> Some err
      | None \<Rightarrow>
         (if sc_Port config < 0 \<or> sc_Port config > 65535 then
            Some (ErrorString ''invalid port number'')
          else
           (case (if sc_SSLEnabled config then
                    (if sc_SSLCertFile config = [] then
                       Some (ErrorString
                         ''SSL certificate file is required when SSL is enabled'')
                     else if sc_SSLKeyFile config = [] then
                       Some (ErrorString ''SSL key file is required when SSL is enabled'')
                     else None)
                  else None) of
              Some err \<Rightarrow> Some err
            | None \<Rightarrow>
               (if sc_ReadTimeout config < 0 then
                  Some (ErrorString ''read timeout must be non-negative'')
                else if sc_WriteTimeout config < 0 then
                  Some (ErrorString ''write timeout must be non-negative'')
                else if sc_IdleTimeout config < 0 then
                  Some (ErrorString ''idle timeout must be non-negative'')
                else if sc_ShutdownTimeout config < 0 then
                  Some (ErrorString ''shutdown timeout must be non-negative'')
                else None)))))"

definition LoadToolConfig :: "'b golib \<Rightarrow> 'b filesystem \<Rightarrow> string \<Rightarrow> go_error + ToolConfig" where
  "LoadToolConfig L fs path =
     (case os_ReadFile fs path of
        Inl err \<Rightarrow> Inl (ErrorString (''failed to read tool config: '' @ err_Error err))
      | Inr data \<Rightarrow>
     (case json_Unmarshal_ToolConfig L data of
        Inl err \<Rightarrow> Inl (ErrorString (''failed to parse tool config: '' @ err_Error err))
      | Inr config \<Rightarrow>
     (case validateToolConfig config of
        Some err \<Rightarrow> Inl (ErrorString (''invalid tool config: '' @ err_Error err))
      | None \<Rightarrow> Inr config)))"

definition LoadServerConfig :: "'b golib \<Rightarrow> 'b filesystem \<Rightarrow> string \<Rightarrow> go_error + ServerConfig" where
  "LoadServerConfig L fs path =
     (case os_ReadFile fs path of
        Inl err \<Rightarrow> Inl (ErrorString (''failed to read server config: '' @ err_Error err))
      | Inr data \<Rightarrow>
     (case json_Unmarshal_ServerConfig L data of
        Inl err \<Rightarrow> Inl (ErrorString (''failed to parse server config: '' @ err_Error err))
      | Inr config \<Rightarrow>
     (case validateServerConfig config of
        Some err \<Rightarrow> Inl (ErrorString (''invalid server config: '' @ err_Error err))
      | None \<Rightarrow> Inr config)))"

section \<open>Server runners\<close>

record RemoteServerRunner =
  rr_server :: Server
  rr_status :: ServerStatus

definition NewRemoteServerRunner :: "Server \<Rightarrow> RemoteServerRunner" where
  "NewRemoteServerRunner server = \<lparr>rr_server = server, rr_status = ServerStatusStopped\<rparr>"

text \<open>The runners' client has a timeout of five seconds (in nanoseconds).\<close>

definition runner_client_timeout :: time where
  "runner_client_timeout = 5 * 1000000000"

definition RemoteServerRunner_healthURL :: "RemoteServerRunner \<Rightarrow> string" where
  "RemoteServerRunner_healthURL r =
     (let healthURL = server_URL (rr_server r) @ ''/health'';
          customHealthURL = md_get (server_Metadata (rr_server r)) ''health_url''
      in if customHealthURL \<noteq> [] then customHealthURL else healthURL)"

definition RemoteServerRunner_HealthCheck ::
  "network \<Rightarrow> RemoteServerRunner \<Rightarrow> Context \<Rightarrow> go_error option \<times> event list" where
  "RemoteServerRunner_HealthCheck N r ctx =
     (let healthURL = RemoteServerRunner_healthURL r in
      ((case client_Get N runner_client_timeout healthURL of
          Inl err \<Rightarrow> Some (ErrorString (''health check failed: '' @ err_Error err))
        | Inr StatusCode \<Rightarrow>
            (if StatusCode \<noteq> 200
             then Some (ErrorString (''health check failed with status: '' @ fmt_d StatusCode))
             else None)),
       [ClientGet runner_client_timeout healthURL]))"

definition RemoteServerRunner_Start ::
  "network \<Rightarrow> RemoteServerRunner \<Rightarrow> Context
     \<Rightarrow> go_error option \<times> RemoteServerRunner \<times> event list" where
  "RemoteServerRunner_Start N r ctx =
     (if rr_status r = ServerStatusRunning then (None, r, [])
      else (case RemoteServerRunner_HealthCheck N r ctx of
        (Some err, evs) \<Rightarrow>
          (Some (ErrorString (''server is not accessible: '' @ err_Error err)),
           r\<lparr>rr_status := ServerStatusError\<rparr>, evs)
      | (None, evs) \<Rightarrow> (None, r\<lparr>rr_status := ServerStatusRunning\<rparr>, evs)))"

definition RemoteServerRunner_Stop ::
  "RemoteServerRunner \<Rightarrow> Context \<Rightarrow> go_error option \<times> RemoteServerRunner" where
  "RemoteServerRunner_Stop r ctx =
     (if rr_status r \<noteq> ServerStatusRunning then (None, r)
      else (None, r\<lparr>rr_status := ServerStatusStopped\<rparr>))"

definition RemoteServerRunner_Status :: "RemoteServerRunner \<Rightarrow> ServerStatus" where
  "RemoteServerRunner_Status r = rr_status r"

text \<open>
  The local runner's \<open>Start\<close>, up to the launch of its health-check goroutine:
  \<open>spawn cmd dir env\<close> is the outcome of starting \<open>sh -c cmd\<close>.
\<close>

record LocalServerRunner =
  lr_server :: Server
  lr_status :: ServerStatus
  lr_healthURL :: string

definition LocalServerRunner_Start ::
  "(string \<Rightarrow> string \<Rightarrow> string \<Rightarrow> go_error option) \<Rightarrow> LocalServerRunner \<Rightarrow> Context
     \<Rightarrow> go_error option \<times> LocalServerRunner \<times> event list" where
  "LocalServerRunner_Start spawn r ctx =
     (if lr_status r = ServerStatusRunning then (None, r, [])
      else
       (let cmd = md_get (server_Metadata (lr_server r)) ''start_cmd'' in
        if cmd = [] then
          (Some (ErrorString (''no start command specified for server ''
             @ server_ID (lr_server r))), r, [])
        else
         (let workDir = md_get (server_Metadata (lr_server r)) ''work_dir'';
              env = md_get (server_Metadata (lr_server r)) ''env''
          in (case spawn cmd workDir env of
                Some err \<Rightarrow>
                  (Some (ErrorString (''failed to start server: '' @ err_Error err)),
                   r\<lparr>lr_status := ServerStatusError\<rparr>, [ProcessStart cmd workDir env])
              | None \<Rightarrow>
                  (None, r\<lparr>lr_status := ServerStatusRunning\<rparr>,
                   [ProcessStart cmd workDir env])))))"

section \<open>The manager (manager.go)\<close>

record Manager =
  servers :: "(string \<times> Server) list"
  tools :: "(string \<times> Tool) list"
  autoApprove :: bool
  timeout :: time
  configPath :: string
  executors :: "(string \<times> ToolExecutor) list"

definition NewManager :: "string \<Rightarrow> Manager" where
  "NewManager path =
     \<lparr>servers = [], tools = [], autoApprove = False, timeout = 30 * 1000000000,
      configPath = path, executors = []\<rparr>"

definition snapshot :: "Manager \<Rightarrow> registry_config" where
  "snapshot m =
     \<lparr>cfg_Servers = servers m, cfg_Tools = tools m,
      cfg_AutoApprove = autoApprove m, cfg_Timeout = timeout m\<rparr>"

definition saveConfig :: "'b golib \<Rightarrow> 'b filesystem \<Rightarrow> Manager \<Rightarrow> go_error option \<times> 'b filesystem" where
  "saveConfig L fs m =
     (let config = snapshot m in
      case json_MarshalIndent L config of
        Inl err \<Rightarrow> (Some err, fs)
      | Inr data \<Rightarrow>
          (case os_MkdirAll fs (filepath_Dir L (configPath m)) of
             Some err \<Rightarrow> (Some err, fs)
           | None \<Rightarrow> os_WriteFile fs (configPath m) data))"


text \<open>
  \<open>newID\<close> is the string of \<open>uuid.New()\<close>; \<open>now1\<close> and \<open>now2\<close> are the readings of
  \<open>time.Now()\<close>, here and below.
\<close>

definition AddServer ::
  "'b golib \<Rightarrow> 'b filesystem \<Rightarrow> string \<Rightarrow> time \<Rightarrow> time \<Rightarrow> Manager \<Rightarrow> Context \<Rightarrow> Server
     \<Rightarrow> go_error option \<times> Manager \<times> 'b filesystem" where
  "AddServer L fs newID now1 now2 m ctx server =
     (let server1 = (if server_ID server = [] then server\<lparr>server_ID := newID\<rparr> else server);
          server2 = server1\<lparr>server_CreatedAt := now1, server_UpdatedAt := now2\<rparr>;
          m' = m\<lparr>servers := AList.update (server_ID server2) server2 (servers m)\<rparr>;
          (err, fs') = saveConfig L fs m'
      in (err, m', fs'))"

text \<open>
  The loop of \<open>RemoveServer\<close>: it visits the entries of the tool map and deletes from
  the map each one whose tool belongs to the server.
\<close>

fun remove_server_tools ::
  "(string \<times> Tool) list \<Rightarrow> string \<Rightarrow> (string \<times> Tool) list \<Rightarrow> (string \<times> Tool) list" where
  "remove_server_tools [] serverID ts = ts"
| "remove_server_tools ((toolID, tool) # rest) serverID ts =
     remove_server_tools rest serverID
       (if tool_ServerID tool = serverID then AList.delete toolID ts else ts)"

definition RemoveServer ::
  "'b golib \<Rightarrow> 'b filesystem \<Rightarrow> Manager \<Rightarrow> Context \<Rightarrow> string
     \<Rightarrow> go_error option \<times> Manager \<times> 'b filesystem" where
  "RemoveServer L fs m ctx serverID =
     (case map_of (servers m) serverID of
        None \<Rightarrow> (Some (ErrorString ''server not found''), m, fs)
      | Some _ \<Rightarrow>
          (let m1 = m\<lparr>tools := remove_server_tools (tools m) serverID (tools m)\<rparr>;
               m2 = m1\<lparr>servers := AList.delete serverID (servers m1)\<rparr>;
               (err, fs') = saveConfig L fs m2
           in (err, m2, fs')))"

definition GetServer :: "Manager \<Rightarrow> Context \<Rightarrow> string \<Rightarrow> go_error + Server" where
  "GetServer m ctx serverID =
     (case map_of (servers m) serverID of
        None \<Rightarrow> Inl (ErrorString ''server not found'')
      | Some server \<Rightarrow> Inr server)"

definition ListServers :: "Manager \<Rightarrow> Context \<Rightarrow> Server list" where
  "ListServers m ctx = map snd (servers m)"

definition StartServer ::
  "'b golib \<Rightarrow> 'b filesystem \<Rightarrow> time \<Rightarrow> Manager \<Rightarrow> Context \<Rightarrow> string
     \<Rightarrow> go_error option \<times> Manager \<times> 'b filesystem" where
  "StartServer L fs now1 m ctx serverID =
     (case map_of (servers m) serverID of
        None \<Rightarrow> (Some (ErrorString ''server not found''), m, fs)
      | Some server \<Rightarrow>
          (let server' = server\<lparr>server_Status := ServerStatusRunning,
                                server_UpdatedAt := now1\<rparr>;
               m' = m\<lparr>servers := AList.update serverID server' (servers m)\<rparr>;
               (err, fs') = saveConfig L fs m'
           in (err, m', fs')))"

definition StopServer ::
  "'b golib \<Rightarrow> 'b filesystem \<Rightarrow> time \<Rightarrow> Manager \<Rightarrow> Context \<Rightarrow> string
     \<Rightarrow> go_error option \<times> Manager \<times> 'b filesystem" where
  "StopServer L fs now1 m ctx serverID =
     (case map_of (servers m) serverID of
        None \<Rightarrow> (Some (ErrorString ''server not found''), m, fs)
      | Some server \<Rightarrow>
          (let server' = server\<lparr>server_Status := ServerStatusStopped,
                                server_UpdatedAt := now1\<rparr>;
               m' = m\<lparr>servers := AList.update serverID server' (servers m)\<rparr>;
               (err, fs') = saveConfig L fs m'
           in (err, m', fs')))"

definition GetTool :: "Manager \<Rightarrow> Context \<Rightarrow> string \<Rightarrow> go_error + Tool" where
  "GetTool m ctx toolID =
     (case map_of (tools m) toolID of
        None \<Rightarrow> Inl (ErrorString ''tool not found'')
      | Some tool \<Rightarrow> Inr tool)"

definition ListTools :: "Manager \<Rightarrow> Context \<Rightarrow> Tool list" where
  "ListTools m ctx = map snd (tools m)"

text \<open>The struct literal that ends \<open>ExecuteTool\<close>.\<close>

definition ToolResult_of :: "string \<Rightarrow> ToolExecutionResult \<Rightarrow> ToolResult" where
  "ToolResult_of toolID result =
     \<lparr>res_ToolID = toolID, res_Status = exec_Status result,
      res_Result = exec_Result result, res_Error = exec_Error result,
      res_StartTime = exec_StartTime result, res_EndTime = exec_EndTime result\<rparr>"

text \<open>
  \<open>ExecuteTool\<close> returns its result, the manager as it leaves it (the executor map may
  have grown) and what it did to the outside world.
\<close>

definition ExecuteTool ::
  "'b golib \<Rightarrow> network \<Rightarrow> time \<Rightarrow> time \<Rightarrow> Manager \<Rightarrow> Context \<Rightarrow> string \<Rightarrow> params
     \<Rightarrow> (failure + ToolResult) \<times> Manager \<times> event list" where
  "ExecuteTool L N startTime endTime m ctx toolID ps =
     (case map_of (tools m) toolID of
        None \<Rightarrow> (Inl (Returned (ErrorString ''tool not found'')), m, [])
      | Some tool \<Rightarrow>
     (case GetServer m ctx (tool_ServerID tool) of
        Inl err \<Rightarrow>
          (Inl (Returned (ErrorString (''server error: '' @ err_Error err))), m, [])
      | Inr server \<Rightarrow>
     (if server_Status server \<noteq> ServerStatusRunning then
        (Inl (Returned (ErrorString ''server is not running'')), m, [])
      else
     (case (case map_of (executors m) (tool_ServerID tool) of
              Some executor \<Rightarrow> Inr (executor, m)
            | None \<Rightarrow>
                (if server_Type server = ServerTypeLocal then
                   Inr (NewLocalExecutor,
                        m\<lparr>executors := AList.update (tool_ServerID tool) NewLocalExecutor
                                          (executors m)\<rparr>)
                 else if server_Type server = ServerTypeRemote then
                   Inr (NewHTTPExecutor (timeout m),
                        m\<lparr>executors := AList.update (tool_ServerID tool)
                                          (NewHTTPExecutor (timeout m)) (executors m)\<rparr>)
                 else Inl (ErrorString (''unsupported server type: '' @ server_Type server))))
      of
        Inl err \<Rightarrow> (Inl (Returned err), m, [])
      | Inr (executor, m') \<Rightarrow>
          (case Execute L N startTime endTime executor ctx tool ps of
             (Inl err, evs) \<Rightarrow> (Inl err, m', evs)
           | (Inr result, evs) \<Rightarrow> (Inr (ToolResult_of toolID result), m', evs))))))"

definition SetAutoApprove ::
  "'b golib \<Rightarrow> 'b filesystem \<Rightarrow> Manager \<Rightarrow> Context \<Rightarrow> bool
     \<Rightarrow> go_error option \<times> Manager \<times> 'b filesystem" where
  "SetAutoApprove L fs m ctx enabled =
     (let m' = m\<lparr>autoApprove := enabled\<rparr>;
          (err, fs') = saveConfig L fs m'
      in (err, m', fs'))"

definition GetAutoApprove :: "Manager \<Rightarrow> Context \<Rightarrow> bool" where
  "GetAutoApprove m ctx = autoApprove m"

definition SetTimeout ::
  "'b golib \<Rightarrow> 'b filesystem \<Rightarrow> Manager \<Rightarrow> Context \<Rightarrow> time
     \<Rightarrow> go_error option \<times> Manager \<times> 'b filesystem" where
  "SetTimeout L fs m ctx d =
     (let m' = m\<lparr>timeout := d\<rparr>;
          (err, fs') = saveConfig L fs m'
      in (err, m', fs'))"

definition GetTimeout :: "Manager \<Rightarrow> Context \<Rightarrow> time" where
  "GetTimeout m ctx = timeout m"

definition RegisterLocalTool ::
  "'b golib \<Rightarrow> 'b filesystem \<Rightarrow> time \<Rightarrow> time \<Rightarrow> Manager \<Rightarrow> string \<Rightarrow> Tool \<Rightarrow> ToolHandler
     \<Rightarrow> go_error option \<times> Manager \<times> 'b filesystem" where
  "RegisterLocalTool L fs now1 now2 m serverID tool handler =
     (case map_of (servers m) serverID of
        None \<Rightarrow> (Some (ErrorString ''server not found''), m, fs)
      | Some server \<Rightarrow>
     (if server_Type server \<noteq> ServerTypeLocal then
        (Some (ErrorString ''server is not a local server''), m, fs)
      else
     (let tool' = tool\<lparr>tool_ServerID := serverID, tool_CreatedAt := now1,
                       tool_UpdatedAt := now2\<rparr>;
          m1 = m\<lparr>tools := AList.update (tool_ID tool') tool' (tools m)\<rparr>;
          (executor, m2) =
            (case map_of (executors m1) serverID of
               Some executor \<Rightarrow> (executor, m1)
             | None \<Rightarrow>
                 (NewLocalExecutor,
                  m1\<lparr>executors := AList.update serverID NewLocalExecutor (executors m1)\<rparr>))
      in (case executor of
            LocalExecutor handlers \<Rightarrow>
              (let m3 = m2\<lparr>executors := AList.update serverID
                             (LocalExecutor (RegisterHandler handlers (tool_ID tool') handler))
                             (executors m2)\<rparr>;
                   (err, fs') = saveConfig L fs m3
               in (err, m3, fs'))
          | HTTPExecutor _ \<Rightarrow> (Some (ErrorString ''invalid executor type''), m2, fs)))))"

definition tool_of_config :: "ToolConfig \<Rightarrow> string \<Rightarrow> time \<Rightarrow> time \<Rightarrow> Tool" where
  "tool_of_config config serverID now1 now2 =
     \<lparr>tool_ID = tc_ID config, tool_Name = tc_Name config,
      tool_Description = tc_Description config, tool_Version = tc_Version config,
      tool_Author = tc_Author config, tool_Parameters = tc_Parameters config,
      tool_ServerID = serverID, tool_CreatedAt = now1, tool_UpdatedAt = now2,
      tool_Metadata = tc_Metadata config\<rparr>"

text \<open>
  \<open>LoadToolFromConfig\<close> builds the tool from the fields of the configuration and sets
  no \<open>ServerID\<close>: the field keeps its zero value, the empty string.
\<close>

definition LoadToolFromConfig ::
  "'b golib \<Rightarrow> 'b filesystem \<Rightarrow> time \<Rightarrow> time \<Rightarrow> Manager \<Rightarrow> Context \<Rightarrow> string
     \<Rightarrow> go_error option \<times> Manager \<times> 'b filesystem" where
  "LoadToolFromConfig L fs now1 now2 m ctx path =
     (case LoadToolConfig L fs path of
        Inl err \<Rightarrow>
          (Some (ErrorString (''failed to load tool config: '' @ err_Error err)), m, fs)
      | Inr config \<Rightarrow>
          (let tool = tool_of_config config [] now1 now2;
               m' = m\<lparr>tools := AList.update (tool_ID tool) tool (tools m)\<rparr>;
               (err, fs') = saveConfig L fs m'
           in (err, m', fs')))"

text \<open>The loop of \<open>LoadServerFromConfig\<close> over the tools of the configuration.\<close>

fun load_server_tools ::
  "ToolConfig list \<Rightarrow> string \<Rightarrow> time \<Rightarrow> time \<Rightarrow> (string \<times> Tool) list \<Rightarrow> (string \<times> Tool) list" where
  "load_server_tools [] serverID now1 now2 ts = ts"
| "load_server_tools (toolConfig # rest) serverID now1 now2 ts =
     load_server_tools rest serverID now1 now2
       (AList.update (tc_ID toolConfig) (tool_of_config toolConfig serverID now1 now2) ts)"

definition LoadServerFromConfig ::
  "'b golib \<Rightarrow> 'b filesystem \<Rightarrow> time \<Rightarrow> time \<Rightarrow> Manager \<Rightarrow> Context \<Rightarrow> string
     \<Rightarrow> go_error option \<times> Manager \<times> 'b filesystem" where
  "LoadServerFromConfig L fs now1 now2 m ctx path =
     (case LoadServerConfig L fs path of
        Inl err \<Rightarrow>
          (Some (ErrorString (''failed to load server config: '' @ err_Error err)), m, fs)
      | Inr config \<Rightarrow>
          (let server = \<lparr>server_ID = sc_ID config, server_Name = sc_Name config,
                         server_Description = sc_Description config,
                         server_Version = sc_Version config, server_URL = sc_URL config,
                         server_Type = sc_Type config, server_Status = ServerStatusStopped,
                         server_Tools = [], server_CreatedAt = now1, server_UpdatedAt = now2,
                         server_Metadata = sc_Metadata config\<rparr>;
               m1 = m\<lparr>servers := AList.update (server_ID server) server (servers m)\<rparr>;
               m2 = m1\<lparr>tools := load_server_tools (sc_Tools config) (server_ID server)
                                   now1 now2 (tools m1)\<rparr>;
               (err, fs') = saveConfig L fs m2
           in (err, m2, fs')))"

section \<open>Notions of the specification\<close>

text \<open>
  The runtime shapes of the data model, as the specification names them: a value has
  the shape of at most one of the five type tags, and every Go number is a number.
\<close>

definition spec_shape_matches :: "string \<Rightarrow> gvalue \<Rightarrow> bool" where
  "spec_shape_matches tag v =
     (case v of
        GString _ \<Rightarrow> tag = ''string''
      | GNum _ _ \<Rightarrow> tag = ''number''
      | GBool _ \<Rightarrow> tag = ''boolean''
      | GSlice _ \<Rightarrow> tag = ''array''
      | GMap _ \<Rightarrow> tag = ''object''
      | _ \<Rightarrow> False)"

text \<open>
  The rules that the specification lists for a declarative configuration: ID, name and
  version are present, every declared parameter has a name and a type, no timeout,
  retry, concurrency, rate-limit or log-size value is negative; for a server also that
  its tools obey the rules, that an enabled SSL has a certificate file and a key file,
  and that the port is within range.
\<close>

definition spec_tool_rules_violated :: "ToolConfig \<Rightarrow> bool" where
  "spec_tool_rules_violated c \<longleftrightarrow>
     tc_ID c = [] \<or> tc_Name c = [] \<or> tc_Version c = []
   \<or> (\<exists>p \<in> set (tc_Parameters c). param_Name p = [] \<or> param_Type p = [])
   \<or> tc_Timeout c < 0 \<or> tc_RetryCount c < 0 \<or> tc_RetryDelay c < 0
   \<or> tc_Concurrency c < 0 \<or> tc_RateLimit c < 0
   \<or> tc_LogMaxSize c < 0 \<or> tc_LogMaxFiles c < 0"

definition spec_server_rules_violated :: "ServerConfig \<Rightarrow> bool" where
  "spec_server_rules_violated c \<longleftrightarrow>
     sc_ID c = [] \<or> sc_Name c = [] \<or> sc_Version c = []
   \<or> (\<exists>t \<in> set (sc_Tools c). spec_tool_rules_violated t)
   \<or> sc_ReadTimeout c < 0 \<or> sc_WriteTimeout c < 0 \<or> sc_IdleTimeout c < 0
   \<or> sc_ShutdownTimeout c < 0
   \<or> (sc_SSLEnabled c \<and> (sc_SSLCertFile c = [] \<or> sc_SSLKeyFile c = []))
   \<or> sc_Port c < 0 \<or> sc_Port c > 65535"

section \<open>A small concrete world\<close>

text \<open>
  One local server \<open>s1\<close> with one tool \<open>t1\<close> taking a required string \<open>x\<close>, a
  library whose codec knows a few documents, a network on which one health endpoint
  and one tool endpoint answer, and a file system with one read-only directory.
\<close>

definition ex_parameter :: ToolParameter where
  "ex_parameter =
     \<lparr>param_Name = ''x'', param_Type = ''string'', param_Description = [],
      param_Required = True, param_Default = GNil\<rparr>"

definition ex_tool :: Tool where
  "ex_tool =
     \<lparr>tool_ID = ''t1'', tool_Name = ''echo'', tool_Description = [], tool_Version = ''1'',
      tool_Author = [], tool_Parameters = [ex_parameter], tool_ServerID = ''s1'',
      tool_CreatedAt = 0, tool_UpdatedAt = 0,
      tool_Metadata = [(''endpoint'', ''http://tools.example/echo'')]\<rparr>"

definition ex_server :: Server where
  "ex_server =
     \<lparr>server_ID = ''s1'', server_Name = ''one'', server_Description = [],
      server_Version = ''1'', server_URL = ''http://up.example'',
      server_Type = ServerTypeLocal, server_Status = ServerStatusStopped,
      server_Tools = [], server_CreatedAt = 0, server_UpdatedAt = 0,
      server_Metadata = [(''start_cmd'', ''true'')]\<rparr>"

definition ex_manager :: Manager where
  "ex_manager = (NewManager ''data/mcp.json'')
     \<lparr>servers := [(''s1'', ex_server)], tools := [(''t1'', ex_tool)]\<rparr>"

definition ex_started :: Manager where
  "ex_started = ex_manager
     \<lparr>servers := [(''s1'', ex_server\<lparr>server_Status := ServerStatusRunning\<rparr>)]\<rparr>"

definition ex_readonly :: Manager where
  "ex_readonly = ex_manager\<lparr>configPath := ''ro/mcp.json''\<rparr>"

definition ex_echo :: ToolHandler where
  "ex_echo ctx ps = (GMap [(''echo'', (case map_of ps ''x'' of Some v \<Rightarrow> v | None \<Rightarrow> GNil))], None)"


definition ex_broken :: ToolHandler where
  "ex_broken ctx ps = (GNil, Some (ErrorString ''boom''))"

definition ex_tool_config :: ToolConfig where
  "ex_tool_config =
     \<lparr>tc_ID = ''t2'', tc_Name = ''standalone'', tc_Description = [], tc_Version = ''1'',
      tc_Author = [], tc_Parameters = [ex_parameter], tc_Metadata = [],
      tc_Timeout = 0, tc_RetryCount = 0, tc_RetryDelay = 0, tc_Concurrency = 0,
      tc_RateLimit = 0, tc_RequireAuth = False, tc_AllowRoles = [], tc_AllowIPs = [],
      tc_LogLevel = [], tc_LogFile = [], tc_LogFormat = [], tc_LogMaxSize = 0,
      tc_LogMaxFiles = 0\<rparr>"

definition ex_server_config :: ServerConfig where
  "ex_server_config =
     \<lparr>sc_ID = ''s2'', sc_Name = ''two'', sc_Description = [], sc_Version = ''1'',
      sc_Type = ServerTypeRemote, sc_URL = ''http://up.example'', sc_Metadata = [],
      sc_Tools = [ex_tool_config], sc_Port = 8080, sc_Host = [], sc_SSLEnabled = False,
      sc_SSLCertFile = [], sc_SSLKeyFile = [], sc_AllowedOrigins = [],
      sc_AllowedMethods = [], sc_AllowedHeaders = [], sc_MaxRequestSize = 0,
      sc_ReadTimeout = 0, sc_WriteTimeout = 0, sc_IdleTimeout = 0,
      sc_ShutdownTimeout = 0\<rparr>"

definition ex_untyped_config :: ServerConfig where
  "ex_untyped_config = ex_server_config\<lparr>sc_Type := []\<rparr>"

definition ex_up_runner :: RemoteServerRunner where
  "ex_up_runner = NewRemoteServerRunner (ex_server\<lparr>server_Type := ServerTypeRemote\<rparr>)"

definition ex_down_runner :: RemoteServerRunner where
  "ex_down_runner = NewRemoteServerRunner
     (ex_server\<lparr>server_Type := ServerTypeRemote, server_URL := ''http://down.example''\<rparr>)"

definition ex_down_running_runner :: RemoteServerRunner where
  "ex_down_running_runner = ex_down_runner\<lparr>rr_status := ServerStatusRunning\<rparr>"

definition ex_golib :: "string golib" where
  "ex_golib =
     \<lparr>json_MarshalIndent = (\<lambda>config. Inr ''registry''),
      json_Unmarshal_registry =
        (\<lambda>data. if data = ''registry'' then Inr (snapshot ex_manager)
                 else Inl (ErrorString ''unexpected end of JSON input'')),
      json_Unmarshal_ToolConfig =
        (\<lambda>data. if data = ''tool'' then Inr ex_tool_config
                 else Inl (ErrorString ''unexpected end of JSON input'')),
      json_Unmarshal_ServerConfig =
        (\<lambda>data. if data = ''server'' then Inr ex_server_config
                 else if data = ''untyped'' then Inr ex_untyped_config
                 else Inl (ErrorString ''unexpected end of JSON input'')),
      json_Marshal_params = (\<lambda>ps. Inr ''params''),
      json_Decode =
        (\<lambda>body. if body = ''ok'' then Inr (GMap [(''echo'', GString ''hi'')])
                 else if body = ''null'' then Inr GNil
                 else Inl (ErrorString ''invalid character'')),
      filepath_Dir = (\<lambda>path. takeWhile (\<lambda>c. c \<noteq> CHR ''/'') path),
      http_NewRequest_err = (\<lambda>method url. None),
      fmt_v = fmt_T\<rparr>"

definition ex_network :: network where
  "ex_network =
     \<lparr>client_Do =
        (\<lambda>d req. if req_URL req = ''http://tools.example/echo''
                  then Inr \<lparr>resp_StatusCode = 200, resp_Body = ''ok''\<rparr>
                  else Inl DeadlineExceeded),
      client_Get =
        (\<lambda>d url. if url = ''http://up.example/health'' then Inr 200
                  else Inl (ErrorString ''connection refused''))\<rparr>"

definition ex_fs :: "string filesystem" where
  "ex_fs =
     \<lparr>files = [''conf/tools/t2.json'' \<mapsto> ''tool'', ''conf/servers/s2.json'' \<mapsto> ''server'',
               ''conf/servers/s3.json'' \<mapsto> ''untyped''],
      MkdirAll_err = (\<lambda>dir. None),
      WriteFile_err =
        (\<lambda>path. if take 3 path = ''ro/'' then Some (ErrorString ''permission denied'')
                 else None),
      ReadFile_err = (\<lambda>path. None)\<rparr>"

section \<open>Properties\<close>

subsection \<open>Parameter validation\<close>

lemma validateParameterType_accepts:
  "validateParameterType tag v = None \<Longrightarrow> spec_shape_matches tag v"
  by (cases v) (auto simp: spec_shape_matches_def split: if_splits)

lemma check_required_None_iff:
  "check_required decls ps = None \<longleftrightarrow>
     (\<forall>p \<in> set decls. param_Required p \<longrightarrow> param_Name p \<in> fst ` set ps)"
  by (induction decls) (auto simp: map_of_eq_None_iff)

lemma find_paramDef_None_iff:
  "find_paramDef decls name = None \<longleftrightarrow> name \<notin> param_Name ` set decls"
  by (induction decls) auto

lemma check_types_None_iff:
  "check_types decls ps = None \<longleftrightarrow>
     (\<forall>(k, v) \<in> set ps. \<exists>p. find_paramDef decls k = Some p
         \<and> validateParameterType (param_Type p) v = None)"
  by (induction ps) (auto split: option.splits simp del: validateParameterType.simps)

lemma ValidateParameters_None_iff:
  "ValidateParameters t ps = None \<longleftrightarrow>
     (\<forall>p \<in> set (tool_Parameters t). param_Required p \<longrightarrow> param_Name p \<in> fst ` set ps)
   \<and> (\<forall>(k, v) \<in> set ps. \<exists>p. find_paramDef (tool_Parameters t) k = Some p
         \<and> validateParameterType (param_Type p) v = None)"
  by (simp add: ValidateParameters_def check_required_None_iff check_types_None_iff
      split: option.splits)
     (metis check_required_None_iff option.distinct(1))

text \<open>
  C2. Let the call's parameter map omit a required parameter of the tool, or hold a key
  that no declared parameter has, or hold under a declared key a value whose runtime
  shape is not the one of the declared type tag (the declaration of a key being the
  first one of that name, the one the code consults). Then validation fails, and both
  executors return the validation error as the error of the call, with no result, and
  do nothing to the outside world: no handler is called and no request is sent.
\<close>

theorem validation_failure_is_call_error:
  assumes "(\<exists>p \<in> set (tool_Parameters t). param_Required p \<and> param_Name p \<notin> fst ` set ps)
         \<or> (\<exists>(k, v) \<in> set ps. k \<notin> param_Name ` set (tool_Parameters t))
         \<or> (\<exists>(k, v) \<in> set ps. \<exists>p. find_paramDef (tool_Parameters t) k = Some p
               \<and> \<not> spec_shape_matches (param_Type p) v)"
  shows "\<exists>err. ValidateParameters t ps = Some err
       \<and> LocalExecutor_Execute startTime endTime handlers ctx t ps =
           (Inl (Returned (ErrorString (''parameter validation failed: '' @ err_Error err))), [])
       \<and> HTTPExecutor_Execute L N startTime endTime d ctx t ps =
           (Inl (Returned (ErrorString (''parameter validation failed: '' @ err_Error err))), [])"
proof -
  have "ValidateParameters t ps \<noteq> None"
  proof
    assume ok: "ValidateParameters t ps = None"
    from assms show False
    proof (elim disjE)
      assume "\<exists>p \<in> set (tool_Parameters t). param_Required p \<and> param_Name p \<notin> fst ` set ps"
      with ok show False unfolding ValidateParameters_None_iff by blast
    next
      assume "\<exists>(k, v) \<in> set ps. k \<notin> param_Name ` set (tool_Parameters t)"
      then obtain k v where kv: "(k, v) \<in> set ps" "k \<notin> param_Name ` set (tool_Parameters t)"
        by auto
      then have "find_paramDef (tool_Parameters t) k = None"
        by (simp add: find_paramDef_None_iff)
      with ok kv(1) show False unfolding ValidateParameters_None_iff by fastforce
    next
      assume "\<exists>(k, v) \<in> set ps. \<exists>p. find_paramDef (tool_Parameters t) k = Some p
               \<and> \<not> spec_shape_matches (param_Type p) v"
      then obtain k v p where kv: "(k, v) \<in> set ps"
        "find_paramDef (tool_Parameters t) k = Some p" "\<not> spec_shape_matches (param_Type p) v"
        by auto
      from ok kv(1,2) have "validateParameterType (param_Type p) v = None"
        unfolding ValidateParameters_None_iff by fastforce
      with kv(3) show False using validateParameterType_accepts by blast
    qed
  qed
  then obtain err where "ValidateParameters t ps = Some err" by auto
  then show ?thesis
    by (simp add: LocalExecutor_Execute_def HTTPExecutor_Execute_def)
qed

theorem validation_failure_is_call_error_witness:
  "(\<exists>p \<in> set (tool_Parameters ex_tool). param_Required p \<and> param_Name p \<notin> fst ` set [])
   \<and> (\<exists>(k, v) \<in> set [(''x'', GString ''hi''), (''y'', GBool True)].
         k \<notin> param_Name ` set (tool_Parameters ex_tool))
   \<and> (\<exists>(k, v) \<in> set [(''x'', GNum KInt 5)].
         \<exists>p. find_paramDef (tool_Parameters ex_tool) k = Some p
            \<and> \<not> spec_shape_matches (param_Type p) v)
   \<and> (\<exists>err. LocalExecutor_Execute 10 11 [(''t1'', ex_echo)] Background ex_tool [] =
               (Inl (Returned err), [])
           \<and> HTTPExecutor_Execute ex_golib ex_network 10 11 30 Background ex_tool [] =
               (Inl (Returned err), []))
   \<and> (\<exists>err. LocalExecutor_Execute 10 11 [(''t1'', ex_echo)] Background ex_tool
                 [(''x'', GString ''hi''), (''y'', GBool True)] = (Inl (Returned err), [])
           \<and> HTTPExecutor_Execute ex_golib ex_network 10 11 30 Background ex_tool
                 [(''x'', GString ''hi''), (''y'', GBool True)] = (Inl (Returned err), []))
   \<and> (\<exists>err. LocalExecutor_Execute 10 11 [(''t1'', ex_echo)] Background ex_tool
                 [(''x'', GNum KInt 5)] = (Inl (Returned err), [])
           \<and> HTTPExecutor_Execute ex_golib ex_network 10 11 30 Background ex_tool
                 [(''x'', GNum KInt 5)] = (Inl (Returned err), []))"
proof -
  have h1: "\<exists>p \<in> set (tool_Parameters ex_tool). param_Required p \<and> param_Name p \<notin> fst ` set []"
    by (simp add: ex_tool_def ex_parameter_def)
  have h2: "\<exists>(k, v) \<in> set [(''x'', GString ''hi''), (''y'', GBool True)].
              k \<notin> param_Name ` set (tool_Parameters ex_tool)"
    by (simp add: ex_tool_def ex_parameter_def)
  have h3: "\<exists>(k, v) \<in> set [(''x'', GNum KInt 5)].
         \<exists>p. find_paramDef (tool_Parameters ex_tool) k = Some p
            \<and> \<not> spec_shape_matches (param_Type p) v"
    by (simp add: ex_tool_def ex_parameter_def spec_shape_matches_def)
  from h1 validation_failure_is_call_error [of ex_tool "[]" 10 11 "[(''t1'', ex_echo)]"
      Background ex_golib ex_network 30]
  have c1: "\<exists>err. LocalExecutor_Execute 10 11 [(''t1'', ex_echo)] Background ex_tool [] =
               (Inl (Returned err), [])
           \<and> HTTPExecutor_Execute ex_golib ex_network 10 11 30 Background ex_tool [] =
               (Inl (Returned err), [])"
    by blast
  from h2 validation_failure_is_call_error [of ex_tool
      "[(''x'', GString ''hi''), (''y'', GBool True)]" 10 11 "[(''t1'', ex_echo)]"
      Background ex_golib ex_network 30]
  have c2: "\<exists>err. LocalExecutor_Execute 10 11 [(''t1'', ex_echo)] Background ex_tool
                 [(''x'', GString ''hi''), (''y'', GBool True)] = (Inl (Returned err), [])
           \<and> HTTPExecutor_Execute ex_golib ex_network 10 11 30 Background ex_tool
                 [(''x'', GString ''hi''), (''y'', GBool True)] = (Inl (Returned err), [])"
    by blast
  from h3 validation_failure_is_call_error [of ex_tool "[(''x'', GNum KInt 5)]" 10 11
      "[(''t1'', ex_echo)]" Background ex_golib ex_network 30]
  have c3: "\<exists>err. LocalExecutor_Execute 10 11 [(''t1'', ex_echo)] Background ex_tool
                 [(''x'', GNum KInt 5)] = (Inl (Returned err), [])
           \<and> HTTPExecutor_Execute ex_golib ex_network 10 11 30 Background ex_tool
                 [(''x'', GNum KInt 5)] = (Inl (Returned err), [])"
    by blast
  from h1 h2 h3 c1 c2 c3 show ?thesis by blast
qed

subsection \<open>Classification of execution results\<close>






lemma ex_validates: "ValidateParameters ex_tool [(''x'', GString ''hi'')] = None"
  by (simp add: ValidateParameters_def ex_tool_def ex_parameter_def)





subsection \<open>Dispatch by the manager\<close>

lemma ExecuteTool_not_running:
  assumes "map_of (tools m) toolID = Some t"
    and "map_of (servers m) (tool_ServerID t) = Some s"
    and "server_Status s \<noteq> ServerStatusRunning"
  shows "ExecuteTool L N startTime endTime m ctx toolID ps =
           (Inl (Returned (ErrorString ''server is not running'')), m, [])"
  using assms by (simp add: ExecuteTool_def GetServer_def)

lemma ExecuteTool_dangling:
  assumes "map_of (tools m) toolID = Some t"
    and "map_of (servers m) (tool_ServerID t) = None"
  shows "ExecuteTool L N startTime endTime m ctx toolID ps =
           (Inl (Returned (ErrorString ''server error: server not found'')), m, [])"
  using assms by (simp add: ExecuteTool_def GetServer_def)

lemma ExecuteTool_cached:
  assumes "map_of (tools m) toolID = Some t"
    and "map_of (servers m) (tool_ServerID t) = Some s"
    and "server_Status s = ServerStatusRunning"
    and "map_of (executors m) (tool_ServerID t) = Some e"
  shows "ExecuteTool L N startTime endTime m ctx toolID ps =
           (\<lambda>(out, evs). (map_sum id (ToolResult_of toolID) out, m, evs))
             (Execute L N startTime endTime e ctx t ps)"
  using assms
  by (simp add: ExecuteTool_def GetServer_def split: prod.splits sum.splits)

lemma ExecuteTool_fresh:
  assumes "map_of (tools m) toolID = Some t"
    and "map_of (servers m) (tool_ServerID t) = Some s"
    and "server_Status s = ServerStatusRunning"
    and "map_of (executors m) (tool_ServerID t) = None"
  shows "server_Type s = ServerTypeLocal \<Longrightarrow>
           ExecuteTool L N startTime endTime m ctx toolID ps =
             (\<lambda>(out, evs). (map_sum id (ToolResult_of toolID) out,
                  m\<lparr>executors := AList.update (tool_ServerID t) NewLocalExecutor (executors m)\<rparr>,
                  evs))
               (Execute L N startTime endTime NewLocalExecutor ctx t ps)"
    and "server_Type s = ServerTypeRemote \<Longrightarrow>
           ExecuteTool L N startTime endTime m ctx toolID ps =
             (\<lambda>(out, evs). (map_sum id (ToolResult_of toolID) out,
                  m\<lparr>executors := AList.update (tool_ServerID t)
                                     (NewHTTPExecutor (timeout m)) (executors m)\<rparr>,
                  evs))
               (Execute L N startTime endTime (NewHTTPExecutor (timeout m)) ctx t ps)"
    and "server_Type s \<noteq> ServerTypeLocal \<Longrightarrow> server_Type s \<noteq> ServerTypeRemote \<Longrightarrow>
           ExecuteTool L N startTime endTime m ctx toolID ps =
             (Inl (Returned (ErrorString (''unsupported server type: '' @ server_Type s))), m, [])"
  using assms
  by (simp_all add: ExecuteTool_def GetServer_def ServerTypeLocal_def ServerTypeRemote_def
      split: prod.splits sum.splits)

text \<open>
  C1. For a registered tool whose owning server is registered with a status other than
  Running, and for every parameter map, \<open>ExecuteTool\<close> fails with the error
  ``server is not running''; the manager is left exactly as it was (no executor is
  created or cached, no server is started, nothing is changed) and nothing is done to
  the outside world (no executor is invoked).
\<close>

theorem execute_tool_requires_running_server:
  assumes "map_of (tools m) toolID = Some t"
    and "map_of (servers m) (tool_ServerID t) = Some s"
    and "server_Status s \<noteq> ServerStatusRunning"
  shows "ExecuteTool L N startTime endTime m ctx toolID ps =
           (Inl (Returned (ErrorString ''server is not running'')), m, [])"
  using assms by (rule ExecuteTool_not_running)

theorem execute_tool_requires_running_server_witness:
  "map_of (tools ex_manager) ''t1'' = Some ex_tool
 \<and> map_of (servers ex_manager) (tool_ServerID ex_tool) = Some ex_server
 \<and> server_Status ex_server \<noteq> ServerStatusRunning
 \<and> ExecuteTool ex_golib ex_network 10 11 ex_manager Background ''t1'' [(''x'', GString ''hi'')] =
      (Inl (Returned (ErrorString ''server is not running'')), ex_manager, [])"
proof -
  have a: "map_of (tools ex_manager) ''t1'' = Some ex_tool"
    by (simp add: ex_manager_def)
  have b: "map_of (servers ex_manager) (tool_ServerID ex_tool) = Some ex_server"
    by (simp add: ex_manager_def ex_tool_def)
  have c: "server_Status ex_server \<noteq> ServerStatusRunning"
    by (simp add: ex_server_def ServerStatusRunning_def ServerStatusStopped_def)
  from a b c execute_tool_requires_running_server [OF a b c] show ?thesis
    by (intro conjI)
qed


text \<open>
  C4. For a registered tool whose server is registered and running: when no executor is
  stored under the tool's server ID, \<open>ExecuteTool\<close> makes a new \<open>LocalExecutor\<close>
  for a server of type local, a new \<open>HTTPExecutor\<close> with the manager's timeout for a
  server of type remote, stores it under that ID and executes with it; for any other
  type the call fails and nothing is stored. When an executor is stored under the ID,
  the call executes with it and leaves the manager as it was; so in the manager left by
  a call that stored an executor, every call for a tool of the same server executes
  with that executor and stores nothing.
\<close>

theorem executor_created_by_type_then_reused:
  assumes "map_of (tools m) toolID = Some t"
    and "map_of (servers m) (tool_ServerID t) = Some s"
    and "server_Status s = ServerStatusRunning"
  shows
   "(map_of (executors m) (tool_ServerID t) = None \<and> server_Type s = ServerTypeLocal \<longrightarrow>
       ExecuteTool L N startTime endTime m ctx toolID ps =
         (\<lambda>(out, evs). (map_sum id (ToolResult_of toolID) out,
              m\<lparr>executors := AList.update (tool_ServerID t) NewLocalExecutor (executors m)\<rparr>,
              evs))
           (Execute L N startTime endTime NewLocalExecutor ctx t ps))
  \<and> (map_of (executors m) (tool_ServerID t) = None \<and> server_Type s = ServerTypeRemote \<longrightarrow>
       ExecuteTool L N startTime endTime m ctx toolID ps =
         (\<lambda>(out, evs). (map_sum id (ToolResult_of toolID) out,
              m\<lparr>executors := AList.update (tool_ServerID t)
                                 (NewHTTPExecutor (timeout m)) (executors m)\<rparr>,
              evs))
           (Execute L N startTime endTime (NewHTTPExecutor (timeout m)) ctx t ps))
  \<and> (map_of (executors m) (tool_ServerID t) = None \<and> server_Type s \<noteq> ServerTypeLocal
        \<and> server_Type s \<noteq> ServerTypeRemote \<longrightarrow>
       ExecuteTool L N startTime endTime m ctx toolID ps =
         (Inl (Returned (ErrorString (''unsupported server type: '' @ server_Type s))), m, []))
  \<and> (\<forall>e. map_of (executors m) (tool_ServerID t) = Some e \<longrightarrow>
       ExecuteTool L N startTime endTime m ctx toolID ps =
         (\<lambda>(out, evs). (map_sum id (ToolResult_of toolID) out, m, evs))
           (Execute L N startTime endTime e ctx t ps))
  \<and> (\<forall>e toolID' t' startTime' endTime' ctx' ps'.
        map_of (tools m) toolID' = Some t' \<and> tool_ServerID t' = tool_ServerID t \<longrightarrow>
        ExecuteTool L N startTime' endTime'
            (m\<lparr>executors := AList.update (tool_ServerID t) e (executors m)\<rparr>) ctx' toolID' ps' =
          (\<lambda>(out, evs). (map_sum id (ToolResult_of toolID') out,
               m\<lparr>executors := AList.update (tool_ServerID t) e (executors m)\<rparr>, evs))
            (Execute L N startTime' endTime' e ctx' t' ps'))"
proof (intro conjI impI allI)
  assume "map_of (executors m) (tool_ServerID t) = None \<and> server_Type s = ServerTypeLocal"
  with assms show "ExecuteTool L N startTime endTime m ctx toolID ps =
         (\<lambda>(out, evs). (map_sum id (ToolResult_of toolID) out,
              m\<lparr>executors := AList.update (tool_ServerID t) NewLocalExecutor (executors m)\<rparr>,
              evs))
           (Execute L N startTime endTime NewLocalExecutor ctx t ps)"
    by (simp add: ExecuteTool_fresh(1))
next
  assume "map_of (executors m) (tool_ServerID t) = None \<and> server_Type s = ServerTypeRemote"
  with assms show "ExecuteTool L N startTime endTime m ctx toolID ps =
         (\<lambda>(out, evs). (map_sum id (ToolResult_of toolID) out,
              m\<lparr>executors := AList.update (tool_ServerID t)
                                 (NewHTTPExecutor (timeout m)) (executors m)\<rparr>,
              evs))
           (Execute L N startTime endTime (NewHTTPExecutor (timeout m)) ctx t ps)"
    by (simp add: ExecuteTool_fresh(2))
next
  assume "map_of (executors m) (tool_ServerID t) = None \<and> server_Type s \<noteq> ServerTypeLocal
        \<and> server_Type s \<noteq> ServerTypeRemote"
  with assms show "ExecuteTool L N startTime endTime m ctx toolID ps =
         (Inl (Returned (ErrorString (''unsupported server type: '' @ server_Type s))), m, [])"
    by (simp add: ExecuteTool_fresh(3))
next
  fix e
  assume "map_of (executors m) (tool_ServerID t) = Some e"
  with assms show "ExecuteTool L N startTime endTime m ctx toolID ps =
         (\<lambda>(out, evs). (map_sum id (ToolResult_of toolID) out, m, evs))
           (Execute L N startTime endTime e ctx t ps)"
    by (rule ExecuteTool_cached)
next
  fix e toolID' t' startTime' endTime' ctx' ps'
  let ?m' = "m\<lparr>executors := AList.update (tool_ServerID t) e (executors m)\<rparr>"
  assume later: "map_of (tools m) toolID' = Some t' \<and> tool_ServerID t' = tool_ServerID t"
  then have a: "map_of (tools ?m') toolID' = Some t'" by simp
  from later assms(2) have b: "map_of (servers ?m') (tool_ServerID t') = Some s" by simp
  from later have c: "map_of (executors ?m') (tool_ServerID t') = Some e"
    by (simp add: update_conv')
  from ExecuteTool_cached [OF a b assms(3) c]
  show "ExecuteTool L N startTime' endTime' ?m' ctx' toolID' ps' =
          (\<lambda>(out, evs). (map_sum id (ToolResult_of toolID') out, ?m', evs))
            (Execute L N startTime' endTime' e ctx' t' ps')" .
qed


lemma ex_started_facts:
  "map_of (tools ex_started) ''t1'' = Some ex_tool"
  "map_of (servers ex_started) (tool_ServerID ex_tool) =
     Some (ex_server\<lparr>server_Status := ServerStatusRunning\<rparr>)"
  "server_Status (ex_server\<lparr>server_Status := ServerStatusRunning\<rparr>) = ServerStatusRunning"
  "map_of (executors ex_started) (tool_ServerID ex_tool) = None"
  "server_Type (ex_server\<lparr>server_Status := ServerStatusRunning\<rparr>) = ServerTypeLocal"
  by (simp_all add: ex_started_def ex_manager_def ex_tool_def ex_server_def NewManager_def)

lemma ex_fresh_local_run:
  "Execute ex_golib ex_network a b NewLocalExecutor Background ex_tool [(''x'', GString ''hi'')] =
     (Inl (Returned (ErrorString ''no handler registered for tool t1'')), [])"
  by (simp add: NewLocalExecutor_def LocalExecutor_Execute_def ex_validates)
     (simp add: ex_tool_def)

theorem executor_created_by_type_then_reused_witness:
  "map_of (tools ex_started) ''t1'' = Some ex_tool
 \<and> map_of (servers ex_started) (tool_ServerID ex_tool) =
     Some (ex_server\<lparr>server_Status := ServerStatusRunning\<rparr>)
 \<and> server_Status (ex_server\<lparr>server_Status := ServerStatusRunning\<rparr>) = ServerStatusRunning
 \<and> map_of (executors ex_started) (tool_ServerID ex_tool) = None
 \<and> server_Type (ex_server\<lparr>server_Status := ServerStatusRunning\<rparr>) = ServerTypeLocal
 \<and> ExecuteTool ex_golib ex_network 10 11 ex_started Background ''t1'' [(''x'', GString ''hi'')] =
      (Inl (Returned (ErrorString ''no handler registered for tool t1'')),
       ex_started\<lparr>executors := [(''s1'', NewLocalExecutor)]\<rparr>, [])
 \<and> ExecuteTool ex_golib ex_network 12 13
        (ex_started\<lparr>executors := [(''s1'', NewLocalExecutor)]\<rparr>)
        Background ''t1'' [(''x'', GString ''hi'')] =
      (Inl (Returned (ErrorString ''no handler registered for tool t1'')),
       ex_started\<lparr>executors := [(''s1'', NewLocalExecutor)]\<rparr>, [])"
proof -
  let ?ps = "[(''x'', GString ''hi'')]"
  note main = executor_created_by_type_then_reused [OF ex_started_facts(1,2,3),
      of ex_golib ex_network 10 11 Background ?ps]
  have upd: "AList.update (tool_ServerID ex_tool) NewLocalExecutor (executors ex_started) =
      [(''s1'', NewLocalExecutor)]"
    by (simp add: ex_started_def ex_manager_def ex_tool_def NewManager_def)
  from main [THEN conjunct1, THEN mp, OF conjI, OF ex_started_facts(4,5)]
  have first: "ExecuteTool ex_golib ex_network 10 11 ex_started Background ''t1'' ?ps =
      (Inl (Returned (ErrorString ''no handler registered for tool t1'')),
       ex_started\<lparr>executors := [(''s1'', NewLocalExecutor)]\<rparr>, [])"
    by (simp add: ex_fresh_local_run upd)
  from main [THEN conjunct2, THEN conjunct2, THEN conjunct2, THEN conjunct2, rule_format,
      where e = NewLocalExecutor and toolID' = "''t1''" and t' = ex_tool
        and startTime' = 12 and endTime' = 13 and ctx' = Background and ps' = ?ps]
    ex_started_facts(1)
  have second: "ExecuteTool ex_golib ex_network 12 13
        (ex_started\<lparr>executors := [(''s1'', NewLocalExecutor)]\<rparr>) Background ''t1'' ?ps =
      (Inl (Returned (ErrorString ''no handler registered for tool t1'')),
       ex_started\<lparr>executors := [(''s1'', NewLocalExecutor)]\<rparr>, [])"
    by (simp add: ex_fresh_local_run upd)
  from ex_started_facts first second show ?thesis by (intro conjI)
qed

lemma ex_tool_config_valid: "validateToolConfig ex_tool_config = None"
  by (simp add: validateToolConfig_def ex_tool_config_def ex_parameter_def)

lemma ex_LoadToolConfig:
  "LoadToolConfig ex_golib ex_fs ''conf/tools/t2.json'' = Inr ex_tool_config"
  by (simp add: LoadToolConfig_def os_ReadFile_def ex_fs_def ex_golib_def ex_tool_config_valid)

text \<open>
  C10. When \<open>LoadToolFromConfig\<close> loads a configuration, the tool it registers under
  the configuration's ID has the empty \<open>ServerID\<close>, and the servers are as before.
  If no server is registered under the empty ID, \<open>ExecuteTool\<close> on that tool fails
  with ``server error: server not found'', before the status check and before any
  executor: the manager is unchanged and nothing is done to the outside world. The same
  holds in every manager state for every tool with the empty \<open>ServerID\<close>.
\<close>

theorem config_loaded_tool_is_dangling:
  assumes "LoadToolConfig L fs path = Inr config"
  shows
   "(\<exists>err m' fs' t.
       LoadToolFromConfig L fs now1 now2 m ctx path = (err, m', fs')
     \<and> map_of (tools m') (tc_ID config) = Some t \<and> tool_ServerID t = []
     \<and> servers m' = servers m
     \<and> (map_of (servers m) [] = None \<longrightarrow>
          ExecuteTool L N startTime endTime m' ctx' (tc_ID config) ps =
            (Inl (Returned (ErrorString ''server error: server not found'')), m', [])))
  \<and> (\<forall>(m2::Manager) toolID t.
        map_of (tools m2) toolID = Some t \<and> tool_ServerID t = []
        \<and> map_of (servers m2) [] = None \<longrightarrow>
        ExecuteTool L N startTime endTime m2 ctx' toolID ps =
          (Inl (Returned (ErrorString ''server error: server not found'')), m2, []))"
proof (intro conjI allI impI)
  let ?t = "tool_of_config config [] now1 now2"
  let ?m' = "m\<lparr>tools := AList.update (tc_ID config) ?t (tools m)\<rparr>"
  obtain err fs' where save: "saveConfig L fs ?m' = (err, fs')"
    by (cases "saveConfig L fs ?m'")
  have id: "tool_ID ?t = tc_ID config" and sid: "tool_ServerID ?t = []"
    by (simp_all add: tool_of_config_def)
  from assms save id have run: "LoadToolFromConfig L fs now1 now2 m ctx path = (err, ?m', fs')"
    by (simp add: LoadToolFromConfig_def Let_def)
  have reg: "map_of (tools ?m') (tc_ID config) = Some ?t"
    by (simp add: update_conv')
  have "map_of (servers m) [] = None \<longrightarrow>
          ExecuteTool L N startTime endTime ?m' ctx' (tc_ID config) ps =
            (Inl (Returned (ErrorString ''server error: server not found'')), ?m', [])"
  proof
    assume "map_of (servers m) [] = None"
    with sid have "map_of (servers ?m') (tool_ServerID ?t) = None" by simp
    from ExecuteTool_dangling [OF reg this]
    show "ExecuteTool L N startTime endTime ?m' ctx' (tc_ID config) ps =
            (Inl (Returned (ErrorString ''server error: server not found'')), ?m', [])" .
  qed
  with run reg sid
  show "\<exists>err m' fs' t.
       LoadToolFromConfig L fs now1 now2 m ctx path = (err, m', fs')
     \<and> map_of (tools m') (tc_ID config) = Some t \<and> tool_ServerID t = []
     \<and> servers m' = servers m
     \<and> (map_of (servers m) [] = None \<longrightarrow>
          ExecuteTool L N startTime endTime m' ctx' (tc_ID config) ps =
            (Inl (Returned (ErrorString ''server error: server not found'')), m', []))"
    by (intro exI [of _ err] exI [of _ ?m'] exI [of _ fs'] exI [of _ ?t]) simp
next
  fix m2 :: Manager and toolID t
  assume "map_of (tools m2) toolID = Some t \<and> tool_ServerID t = []
        \<and> map_of (servers m2) [] = None"
  then show "ExecuteTool L N startTime endTime m2 ctx' toolID ps =
          (Inl (Returned (ErrorString ''server error: server not found'')), m2, [])"
    by (simp add: ExecuteTool_dangling)
qed

theorem config_loaded_tool_is_dangling_witness:
  "LoadToolConfig ex_golib ex_fs ''conf/tools/t2.json'' = Inr ex_tool_config
 \<and> map_of (servers ex_started) [] = None
 \<and> (\<exists>err m' fs' t.
       LoadToolFromConfig ex_golib ex_fs 5 6 ex_started Background ''conf/tools/t2.json'' =
         (err, m', fs')
     \<and> map_of (tools m') ''t2'' = Some t \<and> tool_ServerID t = []
     \<and> ExecuteTool ex_golib ex_network 10 11 m' Background ''t2'' [(''x'', GString ''hi'')] =
            (Inl (Returned (ErrorString ''server error: server not found'')), m', []))"
proof -
  have none: "map_of (servers ex_started) [] = None"
    by (simp add: ex_started_def)
  have id: "tc_ID ex_tool_config = ''t2''"
    by (simp add: ex_tool_config_def)
  from config_loaded_tool_is_dangling [OF ex_LoadToolConfig,
      of 5 6 ex_started Background ex_network 10 11 Background "[(''x'', GString ''hi'')]",
      THEN conjunct1] none id
  have "\<exists>err m' fs' t.
       LoadToolFromConfig ex_golib ex_fs 5 6 ex_started Background ''conf/tools/t2.json'' =
         (err, m', fs')
     \<and> map_of (tools m') ''t2'' = Some t \<and> tool_ServerID t = []
     \<and> ExecuteTool ex_golib ex_network 10 11 m' Background ''t2'' [(''x'', GString ''hi'')] =
            (Inl (Returned (ErrorString ''server error: server not found'')), m', [])"
    by auto
  with ex_LoadToolConfig none show ?thesis by (intro conjI)
qed


subsection \<open>Mutation and persistence\<close>

lemma saveConfig_failed:
  "saveConfig L fs m = (Some e, fs') \<Longrightarrow> fs' = fs"
  by (auto simp: saveConfig_def os_WriteFile_def Let_def split: sum.splits option.splits)

lemma saveConfig_succeeded:
  "saveConfig L fs m = (None, fs') \<Longrightarrow>
     \<exists>data. json_MarshalIndent L (snapshot m) = Inr data
          \<and> fs' = fs\<lparr>files := (files fs)(configPath m \<mapsto> data)\<rparr>"
  by (auto simp: saveConfig_def os_WriteFile_def Let_def split: sum.splits option.splits)

lemma remove_server_tools_filter:
  "remove_server_tools es serverID ts =
     filter (\<lambda>(k, t). k \<notin> fst ` {e \<in> set es. tool_ServerID (snd e) = serverID}) ts"
proof (induction es serverID ts rule: remove_server_tools.induct)
  case (1 serverID ts)
  then show ?case by simp
next
  case (2 toolID tool rest serverID ts)
  show ?case
  proof (cases "tool_ServerID tool = serverID")
    case True
    have "{e \<in> set ((toolID, tool) # rest). tool_ServerID (snd e) = serverID} =
          insert (toolID, tool) {e \<in> set rest. tool_ServerID (snd e) = serverID}"
      using True by auto
    with 2 True show ?thesis
      by (auto simp: AList.delete_eq intro!: filter_cong)
  next
    case False
    have "{e \<in> set ((toolID, tool) # rest). tool_ServerID (snd e) = serverID} =
          {e \<in> set rest. tool_ServerID (snd e) = serverID}"
      using False by auto
    with 2 False show ?thesis by simp
  qed
qed

lemma remove_server_tools_none_left:
  "(k, t) \<in> set (remove_server_tools ts serverID ts) \<Longrightarrow> tool_ServerID t \<noteq> serverID"
  by (force simp: remove_server_tools_filter)

lemma remove_server_tools_subset:
  "set (remove_server_tools es serverID ts) \<subseteq> set ts"
  by (simp add: remove_server_tools_filter)

lemma remove_server_tools_distinct:
  assumes "distinct (map fst ts)"
  shows "remove_server_tools ts serverID ts =
           filter (\<lambda>(k, t). tool_ServerID t \<noteq> serverID) ts"
proof -
  have "\<And>k t. (k, t) \<in> set ts \<Longrightarrow>
      (k \<notin> fst ` {e \<in> set ts. tool_ServerID (snd e) = serverID}) = (tool_ServerID t \<noteq> serverID)"
  proof -
    fix k t assume kt: "(k, t) \<in> set ts"
    show "(k \<notin> fst ` {e \<in> set ts. tool_ServerID (snd e) = serverID}) = (tool_ServerID t \<noteq> serverID)"
    proof
      assume "k \<notin> fst ` {e \<in> set ts. tool_ServerID (snd e) = serverID}"
      with kt show "tool_ServerID t \<noteq> serverID" by force
    next
      assume ne: "tool_ServerID t \<noteq> serverID"
      show "k \<notin> fst ` {e \<in> set ts. tool_ServerID (snd e) = serverID}"
      proof
        assume "k \<in> fst ` {e \<in> set ts. tool_ServerID (snd e) = serverID}"
        then obtain t' where t': "(k, t') \<in> set ts" "tool_ServerID t' = serverID" by auto
        from assms kt t'(1) have "t' = t" by (meson eq_key_imp_eq_value)
        with t'(2) ne show False by simp
      qed
    qed
  qed
  then show ?thesis
    unfolding remove_server_tools_filter by (intro filter_cong) auto
qed

lemma RemoveServer_absent:
  "map_of (servers m) serverID = None \<Longrightarrow>
     RemoveServer L fs m ctx serverID = (Some (ErrorString ''server not found''), m, fs)"
  by (simp add: RemoveServer_def)

lemma RemoveServer_present:
  assumes "map_of (servers m) serverID = Some s"
  shows "RemoveServer L fs m ctx serverID =
     (fst (saveConfig L fs (m\<lparr>tools := remove_server_tools (tools m) serverID (tools m),
                               servers := AList.delete serverID (servers m)\<rparr>)),
      m\<lparr>tools := remove_server_tools (tools m) serverID (tools m),
        servers := AList.delete serverID (servers m)\<rparr>,
      snd (saveConfig L fs (m\<lparr>tools := remove_server_tools (tools m) serverID (tools m),
                               servers := AList.delete serverID (servers m)\<rparr>)))"
  using assms by (simp add: RemoveServer_def Let_def split: prod.splits)


text \<open>
  C3. \<open>RemoveServer\<close> on an ID under which no server is registered fails with
  ``server not found'' and leaves the manager and the file system as they were.
  Otherwise it deletes the server, and from the tool map every entry whose tool has
  that \<open>ServerID\<close> and nothing else (the other fields of the manager stay), so that
  \<open>ListTools\<close> afterwards holds no tool of that server; it then calls \<open>saveConfig\<close> on
  the new state, whose error and file system are those of the call, and when that
  succeeds the registry file holds the encoding of the new state.
\<close>

theorem remove_server_cascades:
  "(map_of (servers m) serverID = None \<longrightarrow>
      RemoveServer L fs m ctx serverID = (Some (ErrorString ''server not found''), m, fs))
 \<and> (map_of (servers m) serverID \<noteq> None \<longrightarrow>
      (\<exists>err m' fs'.
          RemoveServer L fs m ctx serverID = (err, m', fs')
        \<and> servers m' = AList.delete serverID (servers m)
        \<and> map_of (servers m') serverID = None
        \<and> (\<forall>t \<in> set (ListTools m' ctx'). tool_ServerID t \<noteq> serverID)
        \<and> set (tools m') \<subseteq> set (tools m)
        \<and> (distinct (map fst (tools m)) \<longrightarrow>
              tools m' = filter (\<lambda>(k, t). tool_ServerID t \<noteq> serverID) (tools m))
        \<and> autoApprove m' = autoApprove m \<and> timeout m' = timeout m
        \<and> configPath m' = configPath m \<and> executors m' = executors m
        \<and> saveConfig L fs m' = (err, fs')
        \<and> (err = None \<longrightarrow>
              (\<exists>data. json_MarshalIndent L (snapshot m') = Inr data
                    \<and> files fs' (configPath m) = Some data))))"
proof (intro conjI impI)
  assume "map_of (servers m) serverID = None"
  then show "RemoveServer L fs m ctx serverID = (Some (ErrorString ''server not found''), m, fs)"
    by (rule RemoveServer_absent)
next
  let ?m' = "m\<lparr>tools := remove_server_tools (tools m) serverID (tools m),
               servers := AList.delete serverID (servers m)\<rparr>"
  assume "map_of (servers m) serverID \<noteq> None"
  then obtain s where s: "map_of (servers m) serverID = Some s" by auto
  obtain err fs' where save: "saveConfig L fs ?m' = (err, fs')"
    by (cases "saveConfig L fs ?m'")
  from RemoveServer_present [OF s, of L fs ctx] save
  have run: "RemoveServer L fs m ctx serverID = (err, ?m', fs')" by simp
  have gone: "map_of (servers ?m') serverID = None"
    by (simp add: delete_conv')
  have cascade: "\<forall>t \<in> set (ListTools ?m' ctx'). tool_ServerID t \<noteq> serverID"
    by (auto simp: ListTools_def dest: remove_server_tools_none_left)
  have sub: "set (tools ?m') \<subseteq> set (tools m)"
    by (simp add: remove_server_tools_subset)
  have dist: "distinct (map fst (tools m)) \<longrightarrow>
      tools ?m' = filter (\<lambda>(k, t). tool_ServerID t \<noteq> serverID) (tools m)"
    by (simp add: remove_server_tools_distinct)
  have written: "err = None \<longrightarrow>
      (\<exists>data. json_MarshalIndent L (snapshot ?m') = Inr data
            \<and> files fs' (configPath m) = Some data)"
  proof
    assume "err = None"
    with save saveConfig_succeeded [of L fs ?m' fs']
    show "\<exists>data. json_MarshalIndent L (snapshot ?m') = Inr data
            \<and> files fs' (configPath m) = Some data"
      by auto
  qed
  show "\<exists>err m' fs'.
          RemoveServer L fs m ctx serverID = (err, m', fs')
        \<and> servers m' = AList.delete serverID (servers m)
        \<and> map_of (servers m') serverID = None
        \<and> (\<forall>t \<in> set (ListTools m' ctx'). tool_ServerID t \<noteq> serverID)
        \<and> set (tools m') \<subseteq> set (tools m)
        \<and> (distinct (map fst (tools m)) \<longrightarrow>
              tools m' = filter (\<lambda>(k, t). tool_ServerID t \<noteq> serverID) (tools m))
        \<and> autoApprove m' = autoApprove m \<and> timeout m' = timeout m
        \<and> configPath m' = configPath m \<and> executors m' = executors m
        \<and> saveConfig L fs m' = (err, fs')
        \<and> (err = None \<longrightarrow>
              (\<exists>data. json_MarshalIndent L (snapshot m') = Inr data
                    \<and> files fs' (configPath m) = Some data))"
  proof (intro exI conjI)
    show "RemoveServer L fs m ctx serverID = (err, ?m', fs')" by (rule run)
    show "servers ?m' = AList.delete serverID (servers m)" by simp
    show "map_of (servers ?m') serverID = None" by (rule gone)
    show "\<forall>t \<in> set (ListTools ?m' ctx'). tool_ServerID t \<noteq> serverID" by (rule cascade)
    show "set (tools ?m') \<subseteq> set (tools m)" by (rule sub)
    show "distinct (map fst (tools m)) \<longrightarrow>
      tools ?m' = filter (\<lambda>(k, t). tool_ServerID t \<noteq> serverID) (tools m)" by (rule dist)
    show "autoApprove ?m' = autoApprove m" by simp
    show "timeout ?m' = timeout m" by simp
    show "configPath ?m' = configPath m" by simp
    show "executors ?m' = executors m" by simp
    show "saveConfig L fs ?m' = (err, fs')" by (rule save)
    show "err = None \<longrightarrow>
      (\<exists>data. json_MarshalIndent L (snapshot ?m') = Inr data
            \<and> files fs' (configPath m) = Some data)" by (rule written)
  qed
qed

lemma ex_saveConfig:
  "configPath m = ''data/mcp.json'' \<Longrightarrow>
     saveConfig ex_golib ex_fs m =
       (None, ex_fs\<lparr>files := (files ex_fs)(''data/mcp.json'' \<mapsto> ''registry'')\<rparr>)"
  by (simp add: saveConfig_def ex_golib_def os_MkdirAll_def os_WriteFile_def ex_fs_def)

theorem remove_server_cascades_witness:
  "map_of (servers ex_manager) ''s9'' = None
 \<and> RemoveServer ex_golib ex_fs ex_manager Background ''s9'' =
      (Some (ErrorString ''server not found''), ex_manager, ex_fs)
 \<and> map_of (servers ex_manager) ''s1'' \<noteq> None
 \<and> distinct (map fst (tools ex_manager))
 \<and> (\<exists>m' fs'. RemoveServer ex_golib ex_fs ex_manager Background ''s1'' = (None, m', fs')
        \<and> servers m' = [] \<and> tools m' = [] \<and> ListTools m' Background = []
        \<and> files fs' ''data/mcp.json'' = Some ''registry'')"
proof -
  note main = remove_server_cascades [of _ _ ex_golib ex_fs Background Background]
  have a: "map_of (servers ex_manager) ''s9'' = None"
    by (simp add: ex_manager_def)
  have b: "map_of (servers ex_manager) ''s1'' \<noteq> None"
    by (simp add: ex_manager_def)
  have d: "distinct (map fst (tools ex_manager))"
    by (simp add: ex_manager_def)
  from main [of ex_manager "''s9''", THEN conjunct1, THEN mp, OF a]
  have c1: "RemoveServer ex_golib ex_fs ex_manager Background ''s9'' =
      (Some (ErrorString ''server not found''), ex_manager, ex_fs)" .
  from main [of ex_manager "''s1''", THEN conjunct2, THEN mp, OF b]
  obtain err m' fs' where r:
    "RemoveServer ex_golib ex_fs ex_manager Background ''s1'' = (err, m', fs')"
    "servers m' = AList.delete ''s1'' (servers ex_manager)"
    "distinct (map fst (tools ex_manager)) \<longrightarrow>
       tools m' = filter (\<lambda>(k, t). tool_ServerID t \<noteq> ''s1'') (tools ex_manager)"
    "configPath m' = configPath ex_manager"
    "saveConfig ex_golib ex_fs m' = (err, fs')"
    by (elim exE conjE)
  from r(2) have s: "servers m' = []" by (simp add: ex_manager_def)
  from r(3) d have t: "tools m' = []" by (simp add: ex_manager_def ex_tool_def)
  from r(4) have "configPath m' = ''data/mcp.json''"
    by (simp add: ex_manager_def NewManager_def)
  from ex_saveConfig [OF this] r(5)
  have e: "err = None" "fs' = ex_fs\<lparr>files := (files ex_fs)(''data/mcp.json'' \<mapsto> ''registry'')\<rparr>"
    by simp_all
  from r(1) s t e
  have c2: "\<exists>m' fs'. RemoveServer ex_golib ex_fs ex_manager Background ''s1'' = (None, m', fs')
        \<and> servers m' = [] \<and> tools m' = [] \<and> ListTools m' Background = []
        \<and> files fs' ''data/mcp.json'' = Some ''registry''"
    by (intro exI [of _ m'] exI [of _ fs']) (simp add: ListTools_def)
  from a c1 b d c2 show ?thesis by (intro conjI)
qed

lemma AddServer_run:
  "AddServer L fs newID now1 now2 m ctx server =
     (let srv = (if server_ID server = [] then server\<lparr>server_ID := newID\<rparr> else server)
                  \<lparr>server_CreatedAt := now1, server_UpdatedAt := now2\<rparr>;
          m' = m\<lparr>servers := AList.update (server_ID srv) srv (servers m)\<rparr>
      in (fst (saveConfig L fs m'), m', snd (saveConfig L fs m')))"
  by (simp add: AddServer_def Let_def split: prod.splits)

lemma StartServer_run:
  "map_of (servers m) serverID = Some s \<Longrightarrow>
   StartServer L fs now1 m ctx serverID =
     (let m' = m\<lparr>servers := AList.update serverID
                     (s\<lparr>server_Status := ServerStatusRunning, server_UpdatedAt := now1\<rparr>)
                     (servers m)\<rparr>
      in (fst (saveConfig L fs m'), m', snd (saveConfig L fs m')))"
  by (simp add: StartServer_def Let_def split: prod.splits)

lemma StopServer_run:
  "map_of (servers m) serverID = Some s \<Longrightarrow>
   StopServer L fs now1 m ctx serverID =
     (let m' = m\<lparr>servers := AList.update serverID
                     (s\<lparr>server_Status := ServerStatusStopped, server_UpdatedAt := now1\<rparr>)
                     (servers m)\<rparr>
      in (fst (saveConfig L fs m'), m', snd (saveConfig L fs m')))"
  by (simp add: StopServer_def Let_def split: prod.splits)

lemma SetAutoApprove_run:
  "SetAutoApprove L fs m ctx enabled =
     (fst (saveConfig L fs (m\<lparr>autoApprove := enabled\<rparr>)), m\<lparr>autoApprove := enabled\<rparr>,
      snd (saveConfig L fs (m\<lparr>autoApprove := enabled\<rparr>)))"
  by (simp add: SetAutoApprove_def Let_def split: prod.splits)

lemma SetTimeout_run:
  "SetTimeout L fs m ctx d =
     (fst (saveConfig L fs (m\<lparr>timeout := d\<rparr>)), m\<lparr>timeout := d\<rparr>,
      snd (saveConfig L fs (m\<lparr>timeout := d\<rparr>)))"
  by (simp add: SetTimeout_def Let_def split: prod.splits)

lemma saveConfig_failed_snd:
  "fst (saveConfig L fs m) = Some e \<Longrightarrow> snd (saveConfig L fs m) = fs"
  using saveConfig_failed [of L fs m e "snd (saveConfig L fs m)"] by (metis prod.collapse)

lemma saveConfig_failed_eq:
  "fst (saveConfig L fs m) = Some e \<Longrightarrow> saveConfig L fs m = (Some e, fs)"
  using saveConfig_failed_snd [of L fs m e] by (metis prod.collapse)

lemma RegisterLocalTool_failed:
  assumes "map_of (servers m) serverID = Some s \<and> server_Type s = ServerTypeLocal
      \<and> (\<forall>d'. map_of (executors m) serverID \<noteq> Some (HTTPExecutor d'))
      \<and> RegisterLocalTool L fs now1 now2 m serverID tool handler = (Some e, m', fs')"
  shows "fs' = fs" and "saveConfig L fs m' = (Some e, fs)"
    and "map_of (tools m') (tool_ID tool) =
        Some (tool\<lparr>tool_ServerID := serverID, tool_CreatedAt := now1,
                    tool_UpdatedAt := now2\<rparr>)"
    and "\<exists>handlers. map_of (executors m') serverID = Some (LocalExecutor handlers)
          \<and> map_of handlers (tool_ID tool) = Some handler"
proof -
  let ?st = "\<lambda>handlers. m\<lparr>tools := AList.update (tool_ID tool)
                   (tool\<lparr>tool_ServerID := serverID, tool_CreatedAt := now1,
                         tool_UpdatedAt := now2\<rparr>) (tools m),
        executors := AList.update serverID
                       (LocalExecutor (AList.update (tool_ID tool) handler handlers))
                       (executors m)\<rparr>"
  have "\<exists>handlers.
     (fst (saveConfig L fs (?st handlers)), ?st handlers, snd (saveConfig L fs (?st handlers))) =
     (Some e, m', fs')"
  proof (cases "map_of (executors m) serverID")
    case None
    with assms show ?thesis
      by (intro exI [of _ "[]"])
         (auto simp: RegisterLocalTool_def Let_def NewLocalExecutor_def split: prod.splits)
  next
    case (Some ex)
    with assms obtain handlers where "ex = LocalExecutor handlers"
      by (cases ex) auto
    with Some assms show ?thesis
      by (intro exI [of _ handlers])
         (auto simp: RegisterLocalTool_def Let_def split: prod.splits)
  qed
  then obtain handlers where
    "fst (saveConfig L fs (?st handlers)) = Some e" "m' = ?st handlers"
    "fs' = snd (saveConfig L fs (?st handlers))"
    by auto
  then have r: "fs' = fs" "saveConfig L fs m' = (Some e, fs)" "m' = ?st handlers"
    by (simp_all add: saveConfig_failed_snd saveConfig_failed_eq)
  from r show "fs' = fs" "saveConfig L fs m' = (Some e, fs)" by simp_all
  from r(3) show "map_of (tools m') (tool_ID tool) =
        Some (tool\<lparr>tool_ServerID := serverID, tool_CreatedAt := now1,
                    tool_UpdatedAt := now2\<rparr>)"
    by (simp add: update_conv')
  from r(3) show "\<exists>handlers. map_of (executors m') serverID = Some (LocalExecutor handlers)
          \<and> map_of handlers (tool_ID tool) = Some handler"
    by (simp add: update_conv')
qed

lemma load_server_tools_kept:
  "\<exists>tool'. map_of ts k = Some tool' \<and> tool_ServerID tool' = serverID \<Longrightarrow>
   \<exists>tool'. map_of (load_server_tools cs serverID now1 now2 ts) k = Some tool'
      \<and> tool_ServerID tool' = serverID"
  by (induction cs arbitrary: ts) (auto simp: update_conv' tool_of_config_def)

lemma load_server_tools_loaded:
  "t \<in> set cs \<Longrightarrow>
   \<exists>tool'. map_of (load_server_tools cs serverID now1 now2 ts) (tc_ID t) = Some tool'
      \<and> tool_ServerID tool' = serverID"
proof (induction cs arbitrary: ts)
  case Nil
  then show ?case by simp
next
  case (Cons c cs)
  show ?case
  proof (cases "t = c")
    case True
    have "\<exists>tool'. map_of (AList.update (tc_ID c) (tool_of_config c serverID now1 now2) ts)
        (tc_ID t) = Some tool' \<and> tool_ServerID tool' = serverID"
      using True by (simp add: update_conv' tool_of_config_def)
    from load_server_tools_kept [OF this] show ?thesis by simp
  next
    case False
    with Cons show ?thesis by simp
  qed
qed

text \<open>
  C7. When \<open>AddServer\<close>, \<open>RemoveServer\<close>, \<open>StartServer\<close>, \<open>StopServer\<close> (on a
  registered server), \<open>SetAutoApprove\<close>, \<open>SetTimeout\<close>, \<open>RegisterLocalTool\<close> (on a
  local server whose executor is local), \<open>LoadToolFromConfig\<close> or
  \<open>LoadServerFromConfig\<close> (on a configuration that loads) returns an error, that
  error is the one \<open>saveConfig\<close> returned on the state the call leaves, that state
  holds the mutation (the server added, removed with its tools, started or stopped, the
  flag or the timeout set, the tool and its handler registered, the configured tool or
  server stored), and the file system is as it was before the call: nothing is rolled
  back and the registry file is still the old one. A later \<open>saveConfig\<close> that
  succeeds puts the encoding of the state into the registry file.
\<close>

theorem persistence_failure_keeps_mutation:
  "(AddServer L fs newID now1 now2 m ctx server = (Some e, m', fs') \<longrightarrow>
      fs' = fs \<and> saveConfig L fs m' = (Some e, fs)
    \<and> (let srv = (if server_ID server = [] then server\<lparr>server_ID := newID\<rparr> else server)
                    \<lparr>server_CreatedAt := now1, server_UpdatedAt := now2\<rparr>
       in m' = m\<lparr>servers := AList.update (server_ID srv) srv (servers m)\<rparr>
        \<and> map_of (servers m') (server_ID srv) = Some srv))
 \<and> (map_of (servers m) serverID \<noteq> None
      \<and> RemoveServer L fs m ctx serverID = (Some e, m', fs') \<longrightarrow>
      fs' = fs \<and> saveConfig L fs m' = (Some e, fs)
    \<and> map_of (servers m') serverID = None
    \<and> (\<forall>t \<in> set (map snd (tools m')). tool_ServerID t \<noteq> serverID))
 \<and> (map_of (servers m) serverID = Some s
      \<and> StartServer L fs now1 m ctx serverID = (Some e, m', fs') \<longrightarrow>
      fs' = fs \<and> saveConfig L fs m' = (Some e, fs)
    \<and> map_of (servers m') serverID =
        Some (s\<lparr>server_Status := ServerStatusRunning, server_UpdatedAt := now1\<rparr>))
 \<and> (map_of (servers m) serverID = Some s
      \<and> StopServer L fs now1 m ctx serverID = (Some e, m', fs') \<longrightarrow>
      fs' = fs \<and> saveConfig L fs m' = (Some e, fs)
    \<and> map_of (servers m') serverID =
        Some (s\<lparr>server_Status := ServerStatusStopped, server_UpdatedAt := now1\<rparr>))
 \<and> (SetAutoApprove L fs m ctx enabled = (Some e, m', fs') \<longrightarrow>
      fs' = fs \<and> saveConfig L fs m' = (Some e, fs) \<and> m' = m\<lparr>autoApprove := enabled\<rparr>)
 \<and> (SetTimeout L fs m ctx d = (Some e, m', fs') \<longrightarrow>
      fs' = fs \<and> saveConfig L fs m' = (Some e, fs) \<and> m' = m\<lparr>timeout := d\<rparr>)
 \<and> (map_of (servers m) serverID = Some s \<and> server_Type s = ServerTypeLocal
      \<and> (\<forall>d'. map_of (executors m) serverID \<noteq> Some (HTTPExecutor d'))
      \<and> RegisterLocalTool L fs now1 now2 m serverID tool handler = (Some e, m', fs') \<longrightarrow>
      fs' = fs \<and> saveConfig L fs m' = (Some e, fs)
    \<and> map_of (tools m') (tool_ID tool) =
        Some (tool\<lparr>tool_ServerID := serverID, tool_CreatedAt := now1,
                    tool_UpdatedAt := now2\<rparr>)
    \<and> (\<exists>handlers. map_of (executors m') serverID = Some (LocalExecutor handlers)
          \<and> map_of handlers (tool_ID tool) = Some handler))
 \<and> (LoadToolConfig L fs path = Inr tc
      \<and> LoadToolFromConfig L fs now1 now2 m ctx path = (Some e, m', fs') \<longrightarrow>
      fs' = fs \<and> saveConfig L fs m' = (Some e, fs)
    \<and> map_of (tools m') (tc_ID tc) = Some (tool_of_config tc [] now1 now2))
 \<and> (LoadServerConfig L fs path = Inr sc
      \<and> LoadServerFromConfig L fs now1 now2 m ctx path = (Some e, m', fs') \<longrightarrow>
      fs' = fs \<and> saveConfig L fs m' = (Some e, fs)
    \<and> (\<exists>srv. map_of (servers m') (sc_ID sc) = Some srv
          \<and> server_Status srv = ServerStatusStopped)
    \<and> (\<forall>t \<in> set (sc_Tools sc). \<exists>tool'. map_of (tools m') (tc_ID t) = Some tool'
          \<and> tool_ServerID tool' = sc_ID sc))
 \<and> (saveConfig L fs m = (None, fs') \<longrightarrow>
      (\<exists>data. json_MarshalIndent L (snapshot m) = Inr data
            \<and> files fs' (configPath m) = Some data))"
proof (intro conjI impI)
  assume "AddServer L fs newID now1 now2 m ctx server = (Some e, m', fs')"
  then show "fs' = fs" "saveConfig L fs m' = (Some e, fs)"
    "let srv = (if server_ID server = [] then server\<lparr>server_ID := newID\<rparr> else server)
                    \<lparr>server_CreatedAt := now1, server_UpdatedAt := now2\<rparr>
       in m' = m\<lparr>servers := AList.update (server_ID srv) srv (servers m)\<rparr>
        \<and> map_of (servers m') (server_ID srv) = Some srv"
    unfolding AddServer_run Let_def
    by (auto simp: update_conv' saveConfig_failed_snd saveConfig_failed_eq)
next
  assume a: "map_of (servers m) serverID \<noteq> None
      \<and> RemoveServer L fs m ctx serverID = (Some e, m', fs')"
  then obtain s' where s': "map_of (servers m) serverID = Some s'" by auto
  let ?m' = "m\<lparr>tools := remove_server_tools (tools m) serverID (tools m),
        servers := AList.delete serverID (servers m)\<rparr>"
  from a have "RemoveServer L fs m ctx serverID = (Some e, m', fs')" by simp
  then have "fst (saveConfig L fs ?m') = Some e" "m' = ?m'" "fs' = snd (saveConfig L fs ?m')"
    unfolding RemoveServer_present [OF s'] by auto
  then have r: "fs' = fs" "saveConfig L fs m' = (Some e, fs)" "m' = ?m'"
    by (simp_all add: saveConfig_failed_snd saveConfig_failed_eq)
  from r show "fs' = fs" "saveConfig L fs m' = (Some e, fs)" by simp_all
  from r(3) show "map_of (servers m') serverID = None" by (simp add: delete_conv')
  from r(3) show "\<forall>t \<in> set (map snd (tools m')). tool_ServerID t \<noteq> serverID"
    by (auto dest: remove_server_tools_none_left)
next
  assume a: "map_of (servers m) serverID = Some s
      \<and> StartServer L fs now1 m ctx serverID = (Some e, m', fs')"
  then show "fs' = fs" "saveConfig L fs m' = (Some e, fs)"
    "map_of (servers m') serverID =
        Some (s\<lparr>server_Status := ServerStatusRunning, server_UpdatedAt := now1\<rparr>)"
    by (auto simp: StartServer_run Let_def update_conv' saveConfig_failed_snd saveConfig_failed_eq)
next
  assume a: "map_of (servers m) serverID = Some s
      \<and> StopServer L fs now1 m ctx serverID = (Some e, m', fs')"
  then show "fs' = fs" "saveConfig L fs m' = (Some e, fs)"
    "map_of (servers m') serverID =
        Some (s\<lparr>server_Status := ServerStatusStopped, server_UpdatedAt := now1\<rparr>)"
    by (auto simp: StopServer_run Let_def update_conv' saveConfig_failed_snd saveConfig_failed_eq)
next
  assume "SetAutoApprove L fs m ctx enabled = (Some e, m', fs')"
  then show "fs' = fs" "saveConfig L fs m' = (Some e, fs)" "m' = m\<lparr>autoApprove := enabled\<rparr>"
    unfolding SetAutoApprove_run by (auto simp: saveConfig_failed_snd saveConfig_failed_eq)
next
  assume "SetTimeout L fs m ctx d = (Some e, m', fs')"
  then show "fs' = fs" "saveConfig L fs m' = (Some e, fs)" "m' = m\<lparr>timeout := d\<rparr>"
    unfolding SetTimeout_run by (auto simp: saveConfig_failed_snd saveConfig_failed_eq)
next
  assume a: "map_of (servers m) serverID = Some s \<and> server_Type s = ServerTypeLocal
      \<and> (\<forall>d'. map_of (executors m) serverID \<noteq> Some (HTTPExecutor d'))
      \<and> RegisterLocalTool L fs now1 now2 m serverID tool handler = (Some e, m', fs')"
  from RegisterLocalTool_failed [OF a]
  show "fs' = fs" "saveConfig L fs m' = (Some e, fs)"
    "map_of (tools m') (tool_ID tool) =
        Some (tool\<lparr>tool_ServerID := serverID, tool_CreatedAt := now1,
                    tool_UpdatedAt := now2\<rparr>)"
    "\<exists>handlers. map_of (executors m') serverID = Some (LocalExecutor handlers)
          \<and> map_of handlers (tool_ID tool) = Some handler"
    by blast+
next
  assume a: "LoadToolConfig L fs path = Inr tc
      \<and> LoadToolFromConfig L fs now1 now2 m ctx path = (Some e, m', fs')"
  let ?m' = "m\<lparr>tools := AList.update (tc_ID tc) (tool_of_config tc [] now1 now2) (tools m)\<rparr>"
  have id: "tool_ID (tool_of_config tc [] now1 now2) = tc_ID tc"
    by (simp add: tool_of_config_def)
  from a id have "fst (saveConfig L fs ?m') = Some e" "m' = ?m'"
    "fs' = snd (saveConfig L fs ?m')"
    by (auto simp: LoadToolFromConfig_def Let_def split: prod.splits)
  then have r: "fs' = fs" "saveConfig L fs m' = (Some e, fs)" "m' = ?m'"
    by (simp_all add: saveConfig_failed_snd saveConfig_failed_eq)
  from r show "fs' = fs" "saveConfig L fs m' = (Some e, fs)" by simp_all
  from r(3) show "map_of (tools m') (tc_ID tc) = Some (tool_of_config tc [] now1 now2)"
    by (simp add: update_conv')
next
  assume a: "LoadServerConfig L fs path = Inr sc
      \<and> LoadServerFromConfig L fs now1 now2 m ctx path = (Some e, m', fs')"
  let ?srv = "\<lparr>server_ID = sc_ID sc, server_Name = sc_Name sc,
                 server_Description = sc_Description sc,
                 server_Version = sc_Version sc, server_URL = sc_URL sc,
                 server_Type = sc_Type sc, server_Status = ServerStatusStopped,
                 server_Tools = [], server_CreatedAt = now1, server_UpdatedAt = now2,
                 server_Metadata = sc_Metadata sc\<rparr>"
  let ?m' = "m\<lparr>servers := AList.update (sc_ID sc) ?srv (servers m),
               tools := load_server_tools (sc_Tools sc) (sc_ID sc) now1 now2 (tools m)\<rparr>"
  from a have "fst (saveConfig L fs ?m') = Some e" "m' = ?m'"
    "fs' = snd (saveConfig L fs ?m')"
    by (auto simp: LoadServerFromConfig_def Let_def split: prod.splits)
  then have r: "fs' = fs" "saveConfig L fs m' = (Some e, fs)" "m' = ?m'"
    by (simp_all add: saveConfig_failed_snd saveConfig_failed_eq)
  from r show "fs' = fs" "saveConfig L fs m' = (Some e, fs)" by simp_all
  from r(3) show "\<exists>srv. map_of (servers m') (sc_ID sc) = Some srv
          \<and> server_Status srv = ServerStatusStopped"
    by (simp add: update_conv')
  from r(3) show "\<forall>t \<in> set (sc_Tools sc). \<exists>tool'. map_of (tools m') (tc_ID t) = Some tool'
          \<and> tool_ServerID tool' = sc_ID sc"
    by (auto dest: load_server_tools_loaded)
next
  assume "saveConfig L fs m = (None, fs')"
  from saveConfig_succeeded [OF this]
  show "\<exists>data. json_MarshalIndent L (snapshot m) = Inr data
            \<and> files fs' (configPath m) = Some data"
    by auto
qed

lemma ex_saveConfig_ro:
  "configPath m = ''ro/mcp.json'' \<Longrightarrow>
     saveConfig ex_golib ex_fs m = (Some (ErrorString ''permission denied''), ex_fs)"
  by (simp add: saveConfig_def ex_golib_def os_MkdirAll_def os_WriteFile_def ex_fs_def)

lemma ex_readonly_facts:
  "configPath ex_readonly = ''ro/mcp.json''"
  "servers ex_readonly = [(''s1'', ex_server)]"
  "map_of (servers ex_readonly) ''s1'' = Some ex_server"
  by (simp_all add: ex_readonly_def ex_manager_def)

theorem persistence_failure_keeps_mutation_witness:
  "(\<exists>m'. AddServer ex_golib ex_fs ''u1'' 5 6 ex_readonly Background
             (ex_server\<lparr>server_ID := []\<rparr>) =
             (Some (ErrorString ''permission denied''), m', ex_fs)
        \<and> map_of (servers m') ''u1'' =
             Some (ex_server\<lparr>server_ID := ''u1'', server_CreatedAt := 5,
                                server_UpdatedAt := 6\<rparr>))
 \<and> map_of (servers ex_readonly) ''s1'' = Some ex_server
 \<and> (\<exists>m'. RemoveServer ex_golib ex_fs ex_readonly Background ''s1'' =
             (Some (ErrorString ''permission denied''), m', ex_fs)
        \<and> map_of (servers m') ''s1'' = None)
 \<and> (\<exists>m'. StartServer ex_golib ex_fs 7 ex_readonly Background ''s1'' =
             (Some (ErrorString ''permission denied''), m', ex_fs)
        \<and> map_of (servers m') ''s1'' =
             Some (ex_server\<lparr>server_Status := ServerStatusRunning, server_UpdatedAt := 7\<rparr>))
 \<and> (\<exists>m'. StopServer ex_golib ex_fs 7 ex_readonly Background ''s1'' =
             (Some (ErrorString ''permission denied''), m', ex_fs)
        \<and> map_of (servers m') ''s1'' =
             Some (ex_server\<lparr>server_Status := ServerStatusStopped, server_UpdatedAt := 7\<rparr>))
 \<and> SetAutoApprove ex_golib ex_fs ex_readonly Background True =
       (Some (ErrorString ''permission denied''), ex_readonly\<lparr>autoApprove := True\<rparr>, ex_fs)
 \<and> SetTimeout ex_golib ex_fs ex_readonly Background 5 =
       (Some (ErrorString ''permission denied''), ex_readonly\<lparr>timeout := 5\<rparr>, ex_fs)
 \<and> server_Type ex_server = ServerTypeLocal
 \<and> executors ex_readonly = []
 \<and> (\<exists>m'. RegisterLocalTool ex_golib ex_fs 5 6 ex_readonly ''s1'' ex_tool ex_echo =
             (Some (ErrorString ''permission denied''), m', ex_fs)
        \<and> map_of (tools m') (tool_ID ex_tool) =
             Some (ex_tool\<lparr>tool_ServerID := ''s1'', tool_CreatedAt := 5,
                           tool_UpdatedAt := 6\<rparr>))
 \<and> LoadToolConfig ex_golib ex_fs ''conf/tools/t2.json'' = Inr ex_tool_config
 \<and> (\<exists>m'. LoadToolFromConfig ex_golib ex_fs 5 6 ex_readonly Background
             ''conf/tools/t2.json'' = (Some (ErrorString ''permission denied''), m', ex_fs)
        \<and> map_of (tools m') (tc_ID ex_tool_config) =
             Some (tool_of_config ex_tool_config [] 5 6))
 \<and> LoadServerConfig ex_golib ex_fs ''conf/servers/s2.json'' = Inr ex_server_config
 \<and> (\<exists>m' srv. LoadServerFromConfig ex_golib ex_fs 5 6 ex_readonly Background
             ''conf/servers/s2.json'' = (Some (ErrorString ''permission denied''), m', ex_fs)
        \<and> map_of (servers m') (sc_ID ex_server_config) = Some srv
        \<and> server_Status srv = ServerStatusStopped)
 \<and> files ex_fs ''ro/mcp.json'' = None
 \<and> (\<exists>fs'. saveConfig ex_golib ex_fs ex_manager = (None, fs')
         \<and> files fs' ''data/mcp.json'' = Some ''registry'')"
proof -
  let ?pd = "ErrorString ''permission denied''"
  note main = persistence_failure_keeps_mutation [where L = ex_golib and fs = ex_fs
      and m = ex_readonly and ctx = Background and e = ?pd and fs' = ex_fs
      and serverID = "''s1''" and s = ex_server]
  note known = ex_readonly_facts(3)
  have c1: "\<exists>m'. AddServer ex_golib ex_fs ''u1'' 5 6 ex_readonly Background
             (ex_server\<lparr>server_ID := []\<rparr>) = (Some ?pd, m', ex_fs)
        \<and> map_of (servers m') ''u1'' =
             Some (ex_server\<lparr>server_ID := ''u1'', server_CreatedAt := 5,
                                server_UpdatedAt := 6\<rparr>)"
  proof -
    obtain m' where run: "AddServer ex_golib ex_fs ''u1'' 5 6 ex_readonly Background
             (ex_server\<lparr>server_ID := []\<rparr>) = (Some ?pd, m', ex_fs)"
      by (simp add: AddServer_run Let_def ex_saveConfig_ro ex_readonly_facts)
    from main [THEN conjunct1, THEN mp, OF run]
    have "map_of (servers m') ''u1'' =
             Some (ex_server\<lparr>server_ID := ''u1'', server_CreatedAt := 5,
                                server_UpdatedAt := 6\<rparr>)"
      by (simp add: Let_def update_conv')
    with run show ?thesis by (intro exI [of _ m'] conjI)
  qed
  have c2: "\<exists>m'. RemoveServer ex_golib ex_fs ex_readonly Background ''s1'' =
             (Some ?pd, m', ex_fs) \<and> map_of (servers m') ''s1'' = None"
  proof -
    obtain m' where run: "RemoveServer ex_golib ex_fs ex_readonly Background ''s1'' =
             (Some ?pd, m', ex_fs)"
      by (simp add: RemoveServer_present [OF known] ex_saveConfig_ro ex_readonly_facts)
    from known have "map_of (servers ex_readonly) ''s1'' \<noteq> None" by simp
    from main [THEN conjunct2, THEN conjunct1, THEN mp, OF conjI, OF this run]
    have "map_of (servers m') ''s1'' = None" by simp
    with run show ?thesis by (intro exI [of _ m'] conjI)
  qed
  have c3: "\<exists>m'. StartServer ex_golib ex_fs 7 ex_readonly Background ''s1'' =
             (Some ?pd, m', ex_fs)
        \<and> map_of (servers m') ''s1'' =
             Some (ex_server\<lparr>server_Status := ServerStatusRunning, server_UpdatedAt := 7\<rparr>)"
  proof -
    obtain m' where run: "StartServer ex_golib ex_fs 7 ex_readonly Background ''s1'' =
             (Some ?pd, m', ex_fs)"
      by (simp add: StartServer_run [OF known] Let_def ex_saveConfig_ro ex_readonly_facts)
    from main [THEN conjunct2, THEN conjunct2, THEN conjunct1, THEN mp, OF conjI,
        OF known run]
    have "map_of (servers m') ''s1'' =
             Some (ex_server\<lparr>server_Status := ServerStatusRunning, server_UpdatedAt := 7\<rparr>)"
      by simp
    with run show ?thesis by (intro exI [of _ m'] conjI)
  qed
  have c4: "\<exists>m'. StopServer ex_golib ex_fs 7 ex_readonly Background ''s1'' =
             (Some ?pd, m', ex_fs)
        \<and> map_of (servers m') ''s1'' =
             Some (ex_server\<lparr>server_Status := ServerStatusStopped, server_UpdatedAt := 7\<rparr>)"
  proof -
    obtain m' where run: "StopServer ex_golib ex_fs 7 ex_readonly Background ''s1'' =
             (Some ?pd, m', ex_fs)"
      by (simp add: StopServer_run [OF known] Let_def ex_saveConfig_ro ex_readonly_facts)
    from main [THEN conjunct2, THEN conjunct2, THEN conjunct2, THEN conjunct1, THEN mp,
        OF conjI, OF known run]
    have "map_of (servers m') ''s1'' =
             Some (ex_server\<lparr>server_Status := ServerStatusStopped, server_UpdatedAt := 7\<rparr>)"
      by simp
    with run show ?thesis by (intro exI [of _ m'] conjI)
  qed
  have c5: "SetAutoApprove ex_golib ex_fs ex_readonly Background True =
       (Some ?pd, ex_readonly\<lparr>autoApprove := True\<rparr>, ex_fs)"
  proof -
    obtain m' where run: "SetAutoApprove ex_golib ex_fs ex_readonly Background True =
       (Some ?pd, m', ex_fs)"
      by (simp add: SetAutoApprove_run ex_saveConfig_ro ex_readonly_facts)
    from main [THEN conjunct2, THEN conjunct2, THEN conjunct2, THEN conjunct2,
        THEN conjunct1, THEN mp, OF run]
    have "m' = ex_readonly\<lparr>autoApprove := True\<rparr>" by simp
    with run show ?thesis by simp
  qed
  have c6: "SetTimeout ex_golib ex_fs ex_readonly Background 5 =
       (Some ?pd, ex_readonly\<lparr>timeout := 5\<rparr>, ex_fs)"
  proof -
    obtain m' where run: "SetTimeout ex_golib ex_fs ex_readonly Background 5 =
       (Some ?pd, m', ex_fs)"
      by (simp add: SetTimeout_run ex_saveConfig_ro ex_readonly_facts)
    from main [THEN conjunct2, THEN conjunct2, THEN conjunct2, THEN conjunct2,
        THEN conjunct2, THEN conjunct1, THEN mp, OF run]
    have "m' = ex_readonly\<lparr>timeout := 5\<rparr>" by simp
    with run show ?thesis by simp
  qed
  have local: "server_Type ex_server = ServerTypeLocal"
    by (simp add: ex_server_def)
  have noex: "executors ex_readonly = []"
    by (simp add: ex_readonly_def ex_manager_def NewManager_def)
  have r1: "\<exists>m'. RegisterLocalTool ex_golib ex_fs 5 6 ex_readonly ''s1'' ex_tool ex_echo =
             (Some ?pd, m', ex_fs)
        \<and> map_of (tools m') (tool_ID ex_tool) =
             Some (ex_tool\<lparr>tool_ServerID := ''s1'', tool_CreatedAt := 5,
                           tool_UpdatedAt := 6\<rparr>)"
  proof -
    obtain m' where run: "RegisterLocalTool ex_golib ex_fs 5 6 ex_readonly ''s1'' ex_tool
        ex_echo = (Some ?pd, m', ex_fs)"
      by (simp add: RegisterLocalTool_def known local noex NewLocalExecutor_def Let_def
          ex_saveConfig_ro ex_readonly_facts)
    from noex have "\<forall>d'. map_of (executors ex_readonly) ''s1'' \<noteq> Some (HTTPExecutor d')"
      by simp
    with known local run
    have pre: "map_of (servers ex_readonly) ''s1'' = Some ex_server
      \<and> server_Type ex_server = ServerTypeLocal
      \<and> (\<forall>d'. map_of (executors ex_readonly) ''s1'' \<noteq> Some (HTTPExecutor d'))
      \<and> RegisterLocalTool ex_golib ex_fs 5 6 ex_readonly ''s1'' ex_tool ex_echo =
           (Some ?pd, m', ex_fs)"
      by (intro conjI)
    from main [THEN conjunct2, THEN conjunct2, THEN conjunct2, THEN conjunct2,
        THEN conjunct2, THEN conjunct2, THEN conjunct1, THEN mp, OF pre]
    have "map_of (tools m') (tool_ID ex_tool) =
             Some (ex_tool\<lparr>tool_ServerID := ''s1'', tool_CreatedAt := 5,
                           tool_UpdatedAt := 6\<rparr>)"
      by simp
    with run show ?thesis by (intro exI [of _ m'] conjI)
  qed
  have r2: "\<exists>m'. LoadToolFromConfig ex_golib ex_fs 5 6 ex_readonly Background
             ''conf/tools/t2.json'' = (Some ?pd, m', ex_fs)
        \<and> map_of (tools m') (tc_ID ex_tool_config) =
             Some (tool_of_config ex_tool_config [] 5 6)"
  proof -
    obtain m' where run: "LoadToolFromConfig ex_golib ex_fs 5 6 ex_readonly Background
             ''conf/tools/t2.json'' = (Some ?pd, m', ex_fs)"
      by (simp add: LoadToolFromConfig_def ex_LoadToolConfig Let_def ex_saveConfig_ro
          ex_readonly_facts)
    from main [THEN conjunct2, THEN conjunct2, THEN conjunct2, THEN conjunct2,
        THEN conjunct2, THEN conjunct2, THEN conjunct2, THEN conjunct1, THEN mp,
        OF conjI, OF ex_LoadToolConfig run]
    have "map_of (tools m') (tc_ID ex_tool_config) =
             Some (tool_of_config ex_tool_config [] 5 6)"
      by simp
    with run show ?thesis by (intro exI [of _ m'] conjI)
  qed
  have ldsrv: "LoadServerConfig ex_golib ex_fs ''conf/servers/s2.json'' = Inr ex_server_config"
  proof -
    have "validateServerConfig ex_server_config = None"
      by (simp add: validateServerConfig_def ex_server_config_def ex_tool_config_valid
          ServerTypeRemote_def)
    then show ?thesis
      by (simp add: LoadServerConfig_def os_ReadFile_def ex_fs_def ex_golib_def)
  qed
  have r3: "\<exists>m' srv. LoadServerFromConfig ex_golib ex_fs 5 6 ex_readonly Background
             ''conf/servers/s2.json'' = (Some ?pd, m', ex_fs)
        \<and> map_of (servers m') (sc_ID ex_server_config) = Some srv
        \<and> server_Status srv = ServerStatusStopped"
  proof -
    obtain m' where run: "LoadServerFromConfig ex_golib ex_fs 5 6 ex_readonly Background
             ''conf/servers/s2.json'' = (Some ?pd, m', ex_fs)"
      by (simp add: LoadServerFromConfig_def ldsrv Let_def ex_saveConfig_ro
          ex_readonly_facts)
    from main [THEN conjunct2, THEN conjunct2, THEN conjunct2, THEN conjunct2,
        THEN conjunct2, THEN conjunct2, THEN conjunct2, THEN conjunct2, THEN conjunct1,
        THEN mp, OF conjI, OF ldsrv run]
    obtain srv where "map_of (servers m') (sc_ID ex_server_config) = Some srv"
        "server_Status srv = ServerStatusStopped"
      by (elim exE conjE)
    with run show ?thesis by (intro exI [of _ m'] exI [of _ srv] conjI)
  qed
  have c7: "files ex_fs ''ro/mcp.json'' = None"
    by (simp add: ex_fs_def)
  have c8: "\<exists>fs'. saveConfig ex_golib ex_fs ex_manager = (None, fs')
         \<and> files fs' ''data/mcp.json'' = Some ''registry''"
  proof -
    have p: "configPath ex_manager = ''data/mcp.json''"
      by (simp add: ex_manager_def NewManager_def)
    from ex_saveConfig [OF p] obtain fs' where
      run: "saveConfig ex_golib ex_fs ex_manager = (None, fs')" by simp
    from persistence_failure_keeps_mutation [where L = ex_golib and fs = ex_fs
      and m = ex_manager and fs' = fs', THEN conjunct2, THEN conjunct2, THEN conjunct2,
      THEN conjunct2, THEN conjunct2, THEN conjunct2, THEN conjunct2, THEN conjunct2,
      THEN conjunct2, THEN mp, OF run] p
    have "files fs' ''data/mcp.json'' = Some ''registry''"
      by (simp add: ex_golib_def)
    with run show ?thesis by (intro exI [of _ fs'] conjI)
  qed
  from c1 known c2 c3 c4 c5 c6 local noex r1 ex_LoadToolConfig r2 ldsrv r3 c7 c8
  show ?thesis by (intro conjI)
qed



subsection \<open>The remote runner\<close>

text \<open>
  C8, as stated, fails on a runner that is already Running: with its health endpoint
  unreachable, \<open>Start\<close> returns no error, checks nothing and leaves the status Running.
\<close>

theorem remote_start_already_running_counterexample:
  "client_Get ex_network runner_client_timeout
       (RemoteServerRunner_healthURL ex_down_running_runner) =
     Inl (ErrorString ''connection refused'')
 \<and> RemoteServerRunner_Start ex_network ex_down_running_runner Background =
     (None, ex_down_running_runner, [])
 \<and> RemoteServerRunner_Status ex_down_running_runner = ServerStatusRunning"
  by (simp add: RemoteServerRunner_Start_def RemoteServerRunner_Status_def
      ex_down_running_runner_def RemoteServerRunner_healthURL_def ex_down_runner_def
      NewRemoteServerRunner_def ex_server_def md_get_def ex_network_def)

text \<open>
  C8, amended. On a runner whose status is already Running, \<open>Start\<close> returns at once
  with no error, no health check and the status unchanged. On any other runner, \<open>Start\<close>
  performs exactly one health check and nothing else (one GET of the health URL, no
  process is started): if the GET fails or answers with a status other than 200,
  \<open>Start\<close> returns an error and the status becomes Error; if it answers 200, \<open>Start\<close>
  succeeds and the status becomes Running. The health URL is the \<open>health_url\<close> of the
  metadata when that is not empty, the server's URL followed by \<open>/health\<close> otherwise.
\<close>

theorem remote_start_checks_health_once:
  "(rr_status r = ServerStatusRunning \<longrightarrow>
      RemoteServerRunner_Start N r ctx = (None, r, []))
 \<and> (rr_status r \<noteq> ServerStatusRunning \<longrightarrow>
      (\<forall>e. client_Get N runner_client_timeout (RemoteServerRunner_healthURL r) = Inl e \<longrightarrow>
         RemoteServerRunner_Start N r ctx =
           (Some (ErrorString (''server is not accessible: health check failed: ''
              @ err_Error e)),
            r\<lparr>rr_status := ServerStatusError\<rparr>,
            [ClientGet runner_client_timeout (RemoteServerRunner_healthURL r)]))
    \<and> (\<forall>code. client_Get N runner_client_timeout (RemoteServerRunner_healthURL r) = Inr code
           \<and> code \<noteq> 200 \<longrightarrow>
         RemoteServerRunner_Start N r ctx =
           (Some (ErrorString
              (''server is not accessible: health check failed with status: '' @ fmt_d code)),
            r\<lparr>rr_status := ServerStatusError\<rparr>,
            [ClientGet runner_client_timeout (RemoteServerRunner_healthURL r)]))
    \<and> (client_Get N runner_client_timeout (RemoteServerRunner_healthURL r) = Inr 200 \<longrightarrow>
         RemoteServerRunner_Start N r ctx =
           (None, r\<lparr>rr_status := ServerStatusRunning\<rparr>,
            [ClientGet runner_client_timeout (RemoteServerRunner_healthURL r)])))
 \<and> RemoteServerRunner_healthURL r =
      (if md_get (server_Metadata (rr_server r)) ''health_url'' \<noteq> []
       then md_get (server_Metadata (rr_server r)) ''health_url''
       else server_URL (rr_server r) @ ''/health'')"
  by (simp add: RemoteServerRunner_Start_def RemoteServerRunner_HealthCheck_def
      RemoteServerRunner_healthURL_def Let_def)

lemma ex_runner_facts:
  "rr_status ex_up_runner \<noteq> ServerStatusRunning"
  "rr_status ex_down_runner \<noteq> ServerStatusRunning"
  "RemoteServerRunner_healthURL ex_up_runner = ''http://up.example/health''"
  "RemoteServerRunner_healthURL ex_down_runner = ''http://down.example/health''"
  by (simp_all add: ex_up_runner_def ex_down_runner_def NewRemoteServerRunner_def
      ServerStatusRunning_def ServerStatusStopped_def RemoteServerRunner_healthURL_def
      ex_server_def md_get_def)

theorem remote_start_checks_health_once_witness:
  "rr_status ex_up_runner \<noteq> ServerStatusRunning
 \<and> client_Get ex_network runner_client_timeout (RemoteServerRunner_healthURL ex_up_runner) =
      Inr 200
 \<and> RemoteServerRunner_Start ex_network ex_up_runner Background =
      (None, ex_up_runner\<lparr>rr_status := ServerStatusRunning\<rparr>,
       [ClientGet runner_client_timeout ''http://up.example/health''])
 \<and> rr_status ex_down_runner \<noteq> ServerStatusRunning
 \<and> client_Get ex_network runner_client_timeout (RemoteServerRunner_healthURL ex_down_runner) =
      Inl (ErrorString ''connection refused'')
 \<and> RemoteServerRunner_Start ex_network ex_down_runner Background =
      (Some (ErrorString
         ''server is not accessible: health check failed: connection refused''),
       ex_down_runner\<lparr>rr_status := ServerStatusError\<rparr>,
       [ClientGet runner_client_timeout ''http://down.example/health''])
 \<and> rr_status ex_down_running_runner = ServerStatusRunning
 \<and> RemoteServerRunner_Start ex_network ex_down_running_runner Background =
      (None, ex_down_running_runner, [])"
proof -
  have up: "client_Get ex_network runner_client_timeout
      (RemoteServerRunner_healthURL ex_up_runner) = Inr 200"
    by (simp add: ex_runner_facts ex_network_def)
  have down: "client_Get ex_network runner_client_timeout
      (RemoteServerRunner_healthURL ex_down_runner) = Inl (ErrorString ''connection refused'')"
    by (simp add: ex_runner_facts ex_network_def)
  have running: "rr_status ex_down_running_runner = ServerStatusRunning"
    by (simp add: ex_down_running_runner_def)
  from remote_start_checks_health_once [of ex_up_runner ex_network Background,
      THEN conjunct2, THEN conjunct1, THEN mp, OF ex_runner_facts(1),
      THEN conjunct2, THEN conjunct2, THEN mp, OF up]
  have c1: "RemoteServerRunner_Start ex_network ex_up_runner Background =
      (None, ex_up_runner\<lparr>rr_status := ServerStatusRunning\<rparr>,
       [ClientGet runner_client_timeout ''http://up.example/health''])"
    by (simp add: ex_runner_facts)
  from remote_start_checks_health_once [of ex_down_runner ex_network Background,
      THEN conjunct2, THEN conjunct1, THEN mp, OF ex_runner_facts(2),
      THEN conjunct1, THEN spec, THEN mp, OF down]
  have c2: "RemoteServerRunner_Start ex_network ex_down_runner Background =
      (Some (ErrorString
         ''server is not accessible: health check failed: connection refused''),
       ex_down_runner\<lparr>rr_status := ServerStatusError\<rparr>,
       [ClientGet runner_client_timeout ''http://down.example/health''])"
    by (simp add: ex_runner_facts)
  from remote_start_checks_health_once [of ex_down_running_runner ex_network Background,
      THEN conjunct1, THEN mp, OF running]
  have c3: "RemoteServerRunner_Start ex_network ex_down_running_runner Background =
      (None, ex_down_running_runner, [])" .
  from ex_runner_facts(1) up c1 ex_runner_facts(2) down c2 running c3
  show ?thesis by (intro conjI)
qed

subsection \<open>Validation of declarative configurations\<close>

lemma validate_parameters_None_iff:
  "validate_parameters i ps = None \<longleftrightarrow>
     (\<forall>p \<in> set ps. param_Name p \<noteq> [] \<and> param_Type p \<noteq> [])"
  by (induction ps arbitrary: i) auto

lemma validateToolConfig_None_iff:
  "validateToolConfig c = None \<longleftrightarrow> \<not> spec_tool_rules_violated c"
proof (cases "validate_parameters 0 (tc_Parameters c)")
  case None
  then have "\<forall>p \<in> set (tc_Parameters c). param_Name p \<noteq> [] \<and> param_Type p \<noteq> []"
    by (simp add: validate_parameters_None_iff)
  with None show ?thesis
    by (auto simp: validateToolConfig_def spec_tool_rules_violated_def)
next
  case (Some err)
  then have "\<not> (\<forall>p \<in> set (tc_Parameters c). param_Name p \<noteq> [] \<and> param_Type p \<noteq> [])"
    using validate_parameters_None_iff [of 0 "tc_Parameters c"] by simp
  with Some show ?thesis
    by (auto simp: validateToolConfig_def spec_tool_rules_violated_def)
qed

lemma validate_tools_None_iff:
  "validate_tools i ts = None \<longleftrightarrow> (\<forall>t \<in> set ts. validateToolConfig t = None)"
  by (induction ts arbitrary: i) (auto split: option.splits)

lemma validateServerConfig_None_iff:
  "validateServerConfig c = None \<longleftrightarrow> \<not> spec_server_rules_violated c \<and> sc_Type c \<noteq> []"
proof (cases "validate_tools 0 (sc_Tools c)")
  case None
  then have "\<forall>t \<in> set (sc_Tools c). \<not> spec_tool_rules_violated t"
    by (simp add: validate_tools_None_iff validateToolConfig_None_iff)
  with None show ?thesis
    by (auto simp: validateServerConfig_def spec_server_rules_violated_def)
next
  case (Some err)
  then have "\<not> (\<forall>t \<in> set (sc_Tools c). \<not> spec_tool_rules_violated t)"
    using validate_tools_None_iff [of 0 "sc_Tools c"]
    by (simp add: validateToolConfig_None_iff)
  with Some show ?thesis
    by (auto simp: validateServerConfig_def spec_server_rules_violated_def)
qed

lemma ex_untyped_not_violating: "\<not> spec_server_rules_violated ex_untyped_config"
  by (simp add: spec_server_rules_violated_def spec_tool_rules_violated_def
      ex_untyped_config_def ex_server_config_def ex_tool_config_def ex_parameter_def)

text \<open>
  C9, as stated, fails on a server configuration that obeys every listed rule and has
  no type: it is rejected.
\<close>

theorem config_without_type_counterexample:
  "\<not> spec_server_rules_violated ex_untyped_config
 \<and> validateServerConfig ex_untyped_config = Some (ErrorString ''server type is required'')
 \<and> LoadServerConfig ex_golib ex_fs ''conf/servers/s3.json'' =
      Inl (ErrorString ''invalid server config: server type is required'')"
proof -
  have v: "validateServerConfig ex_untyped_config = Some (ErrorString ''server type is required'')"
    by (simp add: validateServerConfig_def ex_untyped_config_def ex_server_config_def)
  then have "LoadServerConfig ex_golib ex_fs ''conf/servers/s3.json'' =
      Inl (ErrorString ''invalid server config: server type is required'')"
    by (simp add: LoadServerConfig_def os_ReadFile_def ex_fs_def ex_golib_def)
  with ex_untyped_not_violating v show ?thesis by (intro conjI)
qed

text \<open>
  C9, amended. A tool configuration passes validation exactly when it violates none of
  the listed rules (the log-size values being \<open>LogMaxSize\<close> and \<open>LogMaxFiles\<close>); a
  server configuration passes exactly when it violates none of the listed rules, each
  of its tools included, and its type is not empty. For a file that is read and parsed,
  \<open>LoadToolConfig\<close> and \<open>LoadServerConfig\<close> return an error and no configuration when
  a rule is violated (or the server's type is empty), and the parsed configuration
  otherwise.
\<close>

theorem config_validation_rules:
  "(validateToolConfig tc = None \<longleftrightarrow> \<not> spec_tool_rules_violated tc)
 \<and> (validateServerConfig sc = None \<longleftrightarrow> \<not> spec_server_rules_violated sc \<and> sc_Type sc \<noteq> [])
 \<and> (os_ReadFile fs path = Inr data \<and> json_Unmarshal_ToolConfig L data = Inr tc \<longrightarrow>
      (spec_tool_rules_violated tc \<longrightarrow> (\<exists>e. LoadToolConfig L fs path = Inl e))
    \<and> (\<not> spec_tool_rules_violated tc \<longrightarrow> LoadToolConfig L fs path = Inr tc))
 \<and> (os_ReadFile fs path' = Inr data' \<and> json_Unmarshal_ServerConfig L data' = Inr sc \<longrightarrow>
      (spec_server_rules_violated sc \<or> sc_Type sc = [] \<longrightarrow>
         (\<exists>e. LoadServerConfig L fs path' = Inl e))
    \<and> (\<not> spec_server_rules_violated sc \<and> sc_Type sc \<noteq> [] \<longrightarrow>
         LoadServerConfig L fs path' = Inr sc))"
proof (intro conjI impI)
  show "validateToolConfig tc = None \<longleftrightarrow> \<not> spec_tool_rules_violated tc"
    by (rule validateToolConfig_None_iff)
  show "validateServerConfig sc = None \<longleftrightarrow> \<not> spec_server_rules_violated sc \<and> sc_Type sc \<noteq> []"
    by (rule validateServerConfig_None_iff)
next
  assume a: "os_ReadFile fs path = Inr data \<and> json_Unmarshal_ToolConfig L data = Inr tc"
    and "spec_tool_rules_violated tc"
  then have "validateToolConfig tc \<noteq> None" by (simp add: validateToolConfig_None_iff)
  with a show "\<exists>e. LoadToolConfig L fs path = Inl e"
    by (auto simp: LoadToolConfig_def)
next
  assume a: "os_ReadFile fs path = Inr data \<and> json_Unmarshal_ToolConfig L data = Inr tc"
    and "\<not> spec_tool_rules_violated tc"
  then have "validateToolConfig tc = None" by (simp add: validateToolConfig_None_iff)
  with a show "LoadToolConfig L fs path = Inr tc"
    by (simp add: LoadToolConfig_def)
next
  assume a: "os_ReadFile fs path' = Inr data' \<and> json_Unmarshal_ServerConfig L data' = Inr sc"
    and "spec_server_rules_violated sc \<or> sc_Type sc = []"
  then have "validateServerConfig sc \<noteq> None"
    using validateServerConfig_None_iff [of sc] by blast
  with a show "\<exists>e. LoadServerConfig L fs path' = Inl e"
    by (auto simp: LoadServerConfig_def)
next
  assume a: "os_ReadFile fs path' = Inr data' \<and> json_Unmarshal_ServerConfig L data' = Inr sc"
    and "\<not> spec_server_rules_violated sc \<and> sc_Type sc \<noteq> []"
  then have "validateServerConfig sc = None" by (simp add: validateServerConfig_None_iff)
  with a show "LoadServerConfig L fs path' = Inr sc"
    by (simp add: LoadServerConfig_def)
qed

theorem config_validation_rules_witness:
  "os_ReadFile ex_fs ''conf/tools/t2.json'' = Inr ''tool''
 \<and> json_Unmarshal_ToolConfig ex_golib ''tool'' = Inr ex_tool_config
 \<and> \<not> spec_tool_rules_violated ex_tool_config
 \<and> LoadToolConfig ex_golib ex_fs ''conf/tools/t2.json'' = Inr ex_tool_config
 \<and> os_ReadFile ex_fs ''conf/servers/s2.json'' = Inr ''server''
 \<and> json_Unmarshal_ServerConfig ex_golib ''server'' = Inr ex_server_config
 \<and> \<not> spec_server_rules_violated ex_server_config \<and> sc_Type ex_server_config \<noteq> []
 \<and> LoadServerConfig ex_golib ex_fs ''conf/servers/s2.json'' = Inr ex_server_config
 \<and> os_ReadFile ex_fs ''conf/servers/s3.json'' = Inr ''untyped''
 \<and> json_Unmarshal_ServerConfig ex_golib ''untyped'' = Inr ex_untyped_config
 \<and> sc_Type ex_untyped_config = []
 \<and> (\<exists>e. LoadServerConfig ex_golib ex_fs ''conf/servers/s3.json'' = Inl e)"
proof -
  have r1: "os_ReadFile ex_fs ''conf/tools/t2.json'' = Inr ''tool''"
    and r2: "os_ReadFile ex_fs ''conf/servers/s2.json'' = Inr ''server''"
    and r3: "os_ReadFile ex_fs ''conf/servers/s3.json'' = Inr ''untyped''"
    by (simp_all add: os_ReadFile_def ex_fs_def)
  have u1: "json_Unmarshal_ToolConfig ex_golib ''tool'' = Inr ex_tool_config"
    and u2: "json_Unmarshal_ServerConfig ex_golib ''server'' = Inr ex_server_config"
    and u3: "json_Unmarshal_ServerConfig ex_golib ''untyped'' = Inr ex_untyped_config"
    by (simp_all add: ex_golib_def)
  have ok1: "\<not> spec_tool_rules_violated ex_tool_config"
    by (simp add: spec_tool_rules_violated_def ex_tool_config_def ex_parameter_def)
  have ok2: "\<not> spec_server_rules_violated ex_server_config \<and> sc_Type ex_server_config \<noteq> []"
    using ok1
    by (simp add: spec_server_rules_violated_def ex_server_config_def ServerTypeRemote_def)
  have bad: "sc_Type ex_untyped_config = []"
    by (simp add: ex_untyped_config_def)
  note main = config_validation_rules [where L = ex_golib and fs = ex_fs]
  from main [where path = "''conf/tools/t2.json''" and data = "''tool''"
      and tc = ex_tool_config, THEN conjunct2, THEN conjunct2, THEN conjunct1, THEN mp,
      OF conjI, OF r1 u1, THEN conjunct2, THEN mp, OF ok1]
  have c1: "LoadToolConfig ex_golib ex_fs ''conf/tools/t2.json'' = Inr ex_tool_config" .
  from main [where path' = "''conf/servers/s2.json''" and data' = "''server''"
      and sc = ex_server_config, THEN conjunct2, THEN conjunct2, THEN conjunct2, THEN mp,
      OF conjI, OF r2 u2, THEN conjunct2, THEN mp, OF ok2]
  have c2: "LoadServerConfig ex_golib ex_fs ''conf/servers/s2.json'' = Inr ex_server_config" .
  from main [where path' = "''conf/servers/s3.json''" and data' = "''untyped''"
      and sc = ex_untyped_config, THEN conjunct2, THEN conjunct2, THEN conjunct2, THEN mp,
      OF conjI, OF r3 u3, THEN conjunct1, THEN mp, OF disjI2, OF bad]
  have c3: "\<exists>e. LoadServerConfig ex_golib ex_fs ''conf/servers/s3.json'' = Inl e" .
  from r1 u1 ok1 c1 r2 u2 ok2 c2 r3 u3 bad c3 show ?thesis by (intro conjI) simp_all
qed

end
